theory Spec2Isabelle
  imports Complex_Main
begin

section \<open>Workforce-Compass: the cohort projection engine\<close>

text \<open>
  A shallow embedding of \<^verbatim>\<open>core/predictor.py\<close> (class \<^verbatim>\<open>HRPredictor\<close>) and of
  \<^verbatim>\<open>DataProcessor.calculate_current_metrics\<close> in \<^verbatim>\<open>core/data_processor.py\<close>.

  Conventions of the embedding:
  \<^item> a Python \<^verbatim>\<open>int\<close> is an \<^typ>\<open>int\<close>;
  \<^item> a Python \<^verbatim>\<open>float\<close> is a \<^typ>\<open>rat\<close>: the arithmetic is exact, so the rounding
    error of binary floating point, infinities and NaN are not part of the model;
  \<^item> a level-keyed \<^verbatim>\<open>Dict[int, _]\<close> is a map \<open>int \<rightharpoonup> _\<close>, and reading a missing key
    is the error \<open>KeyError\<close>;
  \<^item> a function that can raise returns \<open>error + _\<close>, with \<open>Inl\<close> for the exception.
\<close>

subsection \<open>Errors and sequencing\<close>

datatype error = KeyError | ValueError | ZeroDivisionError

definition bind_err :: "error + 'a \<Rightarrow> ('a \<Rightarrow> error + 'b) \<Rightarrow> error + 'b" where
  "bind_err m f = (case m of Inl e \<Rightarrow> Inl e | Inr v \<Rightarrow> f v)"

text \<open>\<^verbatim>\<open>d[k]\<close> on a dictionary.\<close>

definition lookup :: "(int \<rightharpoonup> 'a) \<Rightarrow> int \<Rightarrow> error + 'a" where
  "lookup d k = (case d k of None \<Rightarrow> Inl KeyError | Some v \<Rightarrow> Inr v)"

text \<open>\<^verbatim>\<open>a / b\<close> on numbers: true division, which raises on a zero divisor.\<close>

definition py_truediv :: "rat \<Rightarrow> rat \<Rightarrow> error + rat" where
  "py_truediv a b = (if b = 0 then Inl ZeroDivisionError else Inr (a / b))"

text \<open>A \<^verbatim>\<open>for\<close> loop over a list that threads a state and stops at the first exception.\<close>

fun for_each :: "('s \<Rightarrow> 'a \<Rightarrow> error + 's) \<Rightarrow> 'a list \<Rightarrow> 's \<Rightarrow> error + 's" where
  "for_each f [] s = Inr s"
| "for_each f (x # xs) s = bind_err (f s x) (for_each f xs)"

text \<open>The dictionary comprehension \<^verbatim>\<open>{k: f(k) for k in ks}\<close>: keys are inserted in order.\<close>

definition dict_comp :: "int list \<Rightarrow> (int \<Rightarrow> error + 'v) \<Rightarrow> error + (int \<rightharpoonup> 'v)" where
  "dict_comp ks f = for_each (\<lambda>d k. bind_err (f k) (\<lambda>v. Inr (d(k \<mapsto> v)))) ks Map.empty"

text \<open>\<^verbatim>\<open>sum(f(k) for k in ks)\<close>: starts at 0 and adds from the left.\<close>

definition sum_gen :: "int list \<Rightarrow> (int \<Rightarrow> error + 'n) \<Rightarrow> error + ('n::monoid_add)" where
  "sum_gen ks f = for_each (\<lambda>acc k. bind_err (f k) (\<lambda>v. Inr (acc + v))) ks 0"

subsection \<open>Python's \<^verbatim>\<open>round\<close> and \<^verbatim>\<open>max(..., key=...)\<close>\<close>

text \<open>
  \<^verbatim>\<open>round(x)\<close> with one argument returns the nearest integer, and the even one of the
  two when \<open>x\<close> lies exactly between them.
\<close>

definition py_round :: "rat \<Rightarrow> int" where
  "py_round x =
     (let f = \<lfloor>x\<rfloor>; d = x - of_int f
      in if d < 1 / 2 then f
         else if 1 / 2 < d then f + 1
         else if even f then f else f + 1)"

text \<open>
  \<^verbatim>\<open>max(iterable, key=...)\<close> keeps the first item and replaces it only by an item whose
  key is strictly greater, so the first of several maximal items is returned. The items
  are paired with their keys here.
\<close>

fun max_key_loop :: "int \<times> int \<Rightarrow> (int \<times> int) list \<Rightarrow> int \<times> int" where
  "max_key_loop best [] = best"
| "max_key_loop best (x # xs) = max_key_loop (if snd best < snd x then x else best) xs"

text \<open>On an empty iterable \<^verbatim>\<open>max\<close> raises \<^verbatim>\<open>ValueError\<close>.\<close>

definition max_key :: "int list \<Rightarrow> (int \<Rightarrow> error + int) \<Rightarrow> error + int" where
  "max_key ks key =
     bind_err (for_each (\<lambda>acc k. bind_err (key k) (\<lambda>v. Inr (acc @ [(k, v)]))) ks [])
       (\<lambda>kvs. case kvs of [] \<Rightarrow> Inl ValueError
               | kv # rest \<Rightarrow> Inr (fst (max_key_loop kv rest)))"

subsection \<open>\<^verbatim>\<open>HRPredictor\<close>: level constants\<close>

definition MIN_LEVEL :: int where
  "MIN_LEVEL = 1"

definition MAX_LEVEL :: int where
  "MAX_LEVEL = 7"

definition LEVEL_RANGE :: "int list" where
  "LEVEL_RANGE = [MIN_LEVEL..MAX_LEVEL + 1 - 1]"

subsection \<open>\<^verbatim>\<open>HRPredictor.predict_one_year\<close>\<close>

text \<open>
  Step 1, one iteration of the loop of lines 83 to 94: the body for one \<open>level\<close>, which
  stores one entry into each of \<open>A_campus\<close> and \<open>A_social\<close>.
\<close>

definition promoted :: "(int \<rightharpoonup> int) \<Rightarrow> (int \<rightharpoonup> rat) \<Rightarrow> int \<Rightarrow> error + int" where
  "promoted employees rates level =
     bind_err (lookup employees level) (\<lambda>n.
     bind_err (lookup rates level) (\<lambda>r.
     Inr (py_round (of_int n * r))))"

definition promotion_step ::
  "(int \<rightharpoonup> int) \<Rightarrow> (int \<rightharpoonup> int) \<Rightarrow> (int \<rightharpoonup> rat) \<Rightarrow> (int \<rightharpoonup> rat) \<Rightarrow>
   (int \<rightharpoonup> int) \<times> (int \<rightharpoonup> int) \<Rightarrow> int \<Rightarrow> error + (int \<rightharpoonup> int) \<times> (int \<rightharpoonup> int)" where
  "promotion_step current_campus_employees current_social_employees
       campus_promotion_rates social_promotion_rates A level =
     bind_err (promoted current_campus_employees campus_promotion_rates level) (\<lambda>promoted_out_campus.
     bind_err (promoted current_social_employees social_promotion_rates level) (\<lambda>promoted_out_social.
     bind_err (if level > MIN_LEVEL
               then promoted current_campus_employees campus_promotion_rates (level - 1)
               else Inr 0) (\<lambda>promoted_in_campus.
     bind_err (if level > MIN_LEVEL
               then promoted current_social_employees social_promotion_rates (level - 1)
               else Inr 0) (\<lambda>promoted_in_social.
     bind_err (lookup current_campus_employees level) (\<lambda>campus.
     bind_err (lookup current_social_employees level) (\<lambda>social.
     Inr ((fst A)(level \<mapsto> campus - promoted_out_campus + promoted_in_campus),
          (snd A)(level \<mapsto> social - promoted_out_social + promoted_in_social))))))))"

definition promotion_pass ::
  "(int \<rightharpoonup> int) \<Rightarrow> (int \<rightharpoonup> int) \<Rightarrow> (int \<rightharpoonup> rat) \<Rightarrow> (int \<rightharpoonup> rat) \<Rightarrow>
   error + (int \<rightharpoonup> int) \<times> (int \<rightharpoonup> int)" where
  "promotion_pass current_campus_employees current_social_employees
       campus_promotion_rates social_promotion_rates =
     for_each (promotion_step current_campus_employees current_social_employees
                 campus_promotion_rates social_promotion_rates)
       LEVEL_RANGE (Map.empty, Map.empty)"

text \<open>Step 2, lines 97 to 105: the comprehension that builds \<open>B_campus\<close> or \<open>B_social\<close>.\<close>

definition attrition_pass ::
  "(int \<rightharpoonup> int) \<Rightarrow> (int \<rightharpoonup> int) \<Rightarrow> (int \<rightharpoonup> rat) \<Rightarrow> error + (int \<rightharpoonup> int)" where
  "attrition_pass A current_employees attrition_rates =
     dict_comp LEVEL_RANGE (\<lambda>level.
       bind_err (lookup A level) (\<lambda>a.
       bind_err (lookup current_employees level) (\<lambda>n.
       bind_err (lookup attrition_rates level) (\<lambda>r.
       Inr (py_round (of_int a - of_int n * r))))))"

text \<open>Lines 107 to 110, and the same shape at lines 147 to 150: the sum of two dictionaries.\<close>

definition dict_add :: "(int \<rightharpoonup> int) \<Rightarrow> (int \<rightharpoonup> int) \<Rightarrow> error + (int \<rightharpoonup> int)" where
  "dict_add X Y =
     dict_comp LEVEL_RANGE (\<lambda>level.
       bind_err (lookup X level) (\<lambda>x.
       bind_err (lookup Y level) (\<lambda>y.
       Inr (x + y))))"

text \<open>
  \<^verbatim>\<open>sum(d.values())\<close> for a dictionary built by a comprehension over \<open>LEVEL_RANGE\<close>: its
  values are its entries at the levels, in that order.
\<close>

definition sum_values :: "(int \<rightharpoonup> int) \<Rightarrow> error + int" where
  "sum_values d = sum_gen LEVEL_RANGE (lookup d)"

text \<open>
  Step 4, lines 118 to 134: the allocation of the social hiring slots. The result is the
  dictionary \<open>C\<close>.
\<close>

definition initial_allocation :: "int \<Rightarrow> (int \<rightharpoonup> rat) \<Rightarrow> error + (int \<rightharpoonup> int)" where
  "initial_allocation total_social_hiring_needed hiring_ratios =
     dict_comp LEVEL_RANGE (\<lambda>level.
       bind_err (lookup hiring_ratios level) (\<lambda>r.
       Inr (py_round (of_int total_social_hiring_needed * r))))"

definition adjust_allocation :: "int \<Rightarrow> (int \<rightharpoonup> int) \<Rightarrow> error + (int \<rightharpoonup> int)" where
  "adjust_allocation total_social_hiring_needed initial_C =
     bind_err (sum_values initial_C) (\<lambda>initial_total.
     if initial_total \<noteq> total_social_hiring_needed
     then (let diff = total_social_hiring_needed - initial_total
           in bind_err (max_key LEVEL_RANGE (lookup initial_C)) (\<lambda>max_hiring_level.
              bind_err (lookup initial_C max_hiring_level) (\<lambda>c.
              Inr (initial_C(max_hiring_level \<mapsto> c + diff)))))
     else Inr initial_C)"

definition clamp_allocation :: "(int \<rightharpoonup> int) \<Rightarrow> error + (int \<rightharpoonup> int)" where
  "clamp_allocation initial_C =
     dict_comp LEVEL_RANGE (\<lambda>level.
       bind_err (lookup initial_C level) (\<lambda>c. Inr (max 0 c)))"

definition allocate_social :: "int \<Rightarrow> (int \<rightharpoonup> rat) \<Rightarrow> error + (int \<rightharpoonup> int)" where
  "allocate_social total_social_hiring_needed hiring_ratios =
     bind_err (initial_allocation total_social_hiring_needed hiring_ratios) (\<lambda>initial_C.
     bind_err (adjust_allocation total_social_hiring_needed initial_C) clamp_allocation)"

text \<open>Lines 137 to 140.\<close>

definition add_campus_hiring :: "(int \<rightharpoonup> int) \<Rightarrow> int \<Rightarrow> error + (int \<rightharpoonup> int)" where
  "add_campus_hiring B_campus campus_hiring =
     dict_comp LEVEL_RANGE (\<lambda>level.
       bind_err (lookup B_campus level) (\<lambda>b.
       Inr (b + (if level = MIN_LEVEL then campus_hiring else 0))))"

text \<open>Lines 168 to 179: the age-mass the year starts from.\<close>

definition start_total_age ::
  "(int \<rightharpoonup> int) \<Rightarrow> (int \<rightharpoonup> int) \<Rightarrow> (int \<rightharpoonup> rat) option \<Rightarrow> (int \<rightharpoonup> rat) option \<Rightarrow>
   rat option \<Rightarrow> error + rat" where
  "start_total_age current_campus_employees current_social_employees
       current_campus_ages current_social_ages previous_predicted_total_age =
     (case previous_predicted_total_age of
        None \<Rightarrow>
          (case (current_campus_ages, current_social_ages) of
             (Some campus_ages, Some social_ages) \<Rightarrow>
               sum_gen LEVEL_RANGE (\<lambda>l.
                 bind_err (lookup current_campus_employees l) (\<lambda>c.
                 bind_err (lookup campus_ages l) (\<lambda>ca.
                 bind_err (lookup current_social_employees l) (\<lambda>s.
                 bind_err (lookup social_ages l) (\<lambda>sa.
                 Inr (of_int c * ca + of_int s * sa))))))
           | _ \<Rightarrow> Inl ValueError)
      | Some total_age \<Rightarrow> Inr total_age)"

text \<open>Lines 182 to 200: head count and age-mass that leave one channel.\<close>

definition leaving_total :: "(int \<rightharpoonup> int) \<Rightarrow> (int \<rightharpoonup> rat) \<Rightarrow> error + rat" where
  "leaving_total current_employees attrition_rates =
     sum_gen LEVEL_RANGE (\<lambda>level.
       bind_err (lookup current_employees level) (\<lambda>n.
       bind_err (lookup attrition_rates level) (\<lambda>r.
       Inr (of_int n * r))))"

definition leaving_total_age ::
  "(int \<rightharpoonup> int) \<Rightarrow> (int \<rightharpoonup> rat) \<Rightarrow> (int \<rightharpoonup> rat) \<Rightarrow> error + rat" where
  "leaving_total_age current_employees attrition_rates leaving_ages =
     sum_gen LEVEL_RANGE (\<lambda>level.
       bind_err (lookup current_employees level) (\<lambda>n.
       bind_err (lookup attrition_rates level) (\<lambda>r.
       bind_err (lookup leaving_ages level) (\<lambda>a.
       Inr (of_int n * r * a)))))"

text \<open>
  Lines 152 to 221: the scalars of the result, which are computed from the dictionaries
  without any assignment to one.
\<close>

definition scalars ::
  "(int \<rightharpoonup> int) \<Rightarrow> (int \<rightharpoonup> int) \<Rightarrow> (int \<rightharpoonup> rat) option \<Rightarrow> (int \<rightharpoonup> rat) option \<Rightarrow>
   (int \<rightharpoonup> rat) \<Rightarrow> (int \<rightharpoonup> rat) \<Rightarrow> (int \<rightharpoonup> rat) \<Rightarrow> rat \<Rightarrow>
   (int \<rightharpoonup> rat) \<Rightarrow> (int \<rightharpoonup> rat) \<Rightarrow> rat option \<Rightarrow>
   int \<Rightarrow> (int \<rightharpoonup> int) \<Rightarrow> (int \<rightharpoonup> int) \<Rightarrow> (int \<rightharpoonup> int) \<Rightarrow>
   error + rat \<times> rat \<times> rat \<times> rat" where
  "scalars current_campus_employees current_social_employees
       current_campus_ages current_social_ages
       campus_leaving_ages social_leaving_ages social_new_hire_ages campus_new_hire_age
       campus_attrition_rates social_attrition_rates previous_predicted_total_age
       campus_hiring C final_campus final_structure =
     bind_err (sum_values final_structure) (\<lambda>predicted_total.
     bind_err (if predicted_total \<noteq> 0
               then bind_err (sum_gen LEVEL_RANGE (\<lambda>level.
                                bind_err (lookup final_structure level) (\<lambda>n. Inr (level * n))))
                      (\<lambda>s. py_truediv (of_int s) (of_int predicted_total))
               else Inr 0) (\<lambda>predicted_average_level.
     bind_err (sum_gen LEVEL_RANGE (\<lambda>l.
                 bind_err (lookup current_campus_employees l) (\<lambda>c.
                 bind_err (lookup current_social_employees l) (\<lambda>s. Inr (c + s))))) (\<lambda>current_total.
     bind_err (start_total_age current_campus_employees current_social_employees
                 current_campus_ages current_social_ages previous_predicted_total_age)
       (\<lambda>current_total_age.
     bind_err (leaving_total current_campus_employees campus_attrition_rates) (\<lambda>campus_leaving_total.
     bind_err (leaving_total current_social_employees social_attrition_rates) (\<lambda>social_leaving_total.
     bind_err (leaving_total_age current_campus_employees campus_attrition_rates campus_leaving_ages)
       (\<lambda>campus_leaving_total_age.
     bind_err (leaving_total_age current_social_employees social_attrition_rates social_leaving_ages)
       (\<lambda>social_leaving_total_age.
     let survived_total = of_int current_total - (campus_leaving_total + social_leaving_total)
     in
     bind_err (sum_gen LEVEL_RANGE (\<lambda>level.
                 bind_err (lookup C level) (\<lambda>c.
                 bind_err (lookup social_new_hire_ages level) (\<lambda>a. Inr (of_int c * a)))))
       (\<lambda>social_hire_age.
     let predicted_total_age =
           current_total_age - (campus_leaving_total_age + social_leaving_total_age)
           + survived_total * 1
           + of_int campus_hiring * campus_new_hire_age
           + social_hire_age
     in
     bind_err (if predicted_total \<noteq> 0
               then py_truediv predicted_total_age (of_int predicted_total)
               else Inr 0) (\<lambda>predicted_average_age.
     bind_err (if predicted_total > 0
               then bind_err (sum_gen LEVEL_RANGE (lookup final_campus))
                      (\<lambda>s. py_truediv (of_int s) (of_int predicted_total))
               else Inr 0) (\<lambda>predicted_campus_ratio.
     Inr (predicted_average_level, predicted_average_age, predicted_campus_ratio,
          predicted_total_age))))))))))))"

text \<open>
  The whole function. The result is the tuple of line 223: \<open>final_campus\<close>,
  \<open>final_social\<close>, \<open>final_structure\<close>, \<open>predicted_average_level\<close>,
  \<open>predicted_average_age\<close>, \<open>predicted_campus_ratio\<close>, \<open>campus_hiring\<close>, \<open>C\<close> and
  \<open>predicted_total_age\<close>.
\<close>

type_synonym year_result =
  "(int \<rightharpoonup> int) \<times> (int \<rightharpoonup> int) \<times> (int \<rightharpoonup> int) \<times> rat \<times> rat \<times> rat \<times> int \<times> (int \<rightharpoonup> int) \<times> rat"

definition predict_one_year ::
  "(int \<rightharpoonup> int) \<Rightarrow> (int \<rightharpoonup> int) \<Rightarrow> (int \<rightharpoonup> rat) option \<Rightarrow> (int \<rightharpoonup> rat) option \<Rightarrow>
   (int \<rightharpoonup> rat) \<Rightarrow> (int \<rightharpoonup> rat) \<Rightarrow> (int \<rightharpoonup> rat) \<Rightarrow> rat \<Rightarrow>
   (int \<rightharpoonup> rat) \<Rightarrow> (int \<rightharpoonup> rat) \<Rightarrow> (int \<rightharpoonup> rat) \<Rightarrow> (int \<rightharpoonup> rat) \<Rightarrow>
   (int \<rightharpoonup> rat) \<Rightarrow> rat \<Rightarrow> int \<Rightarrow> rat option \<Rightarrow> error + year_result" where
  "predict_one_year current_campus_employees current_social_employees
       current_campus_ages current_social_ages
       campus_leaving_ages social_leaving_ages social_new_hire_ages campus_new_hire_age
       campus_promotion_rates social_promotion_rates
       campus_attrition_rates social_attrition_rates
       hiring_ratios campus_ratio target_total previous_predicted_total_age =
     bind_err (promotion_pass current_campus_employees current_social_employees
                 campus_promotion_rates social_promotion_rates) (\<lambda>A.
     bind_err (attrition_pass (fst A) current_campus_employees campus_attrition_rates) (\<lambda>B_campus.
     bind_err (attrition_pass (snd A) current_social_employees social_attrition_rates) (\<lambda>B_social.
     bind_err (dict_add B_campus B_social) (\<lambda>B.
     bind_err (sum_values B) (\<lambda>total_B.
     let campus_hiring = py_round (of_int target_total * campus_ratio);
         total_social_hiring_needed = target_total - total_B - campus_hiring
     in
     bind_err (allocate_social total_social_hiring_needed hiring_ratios) (\<lambda>C.
     bind_err (add_campus_hiring B_campus campus_hiring) (\<lambda>final_campus.
     bind_err (dict_add B_social C) (\<lambda>final_social.
     bind_err (dict_add final_campus final_social) (\<lambda>final_structure.
     bind_err (scalars current_campus_employees current_social_employees
                 current_campus_ages current_social_ages
                 campus_leaving_ages social_leaving_ages social_new_hire_ages campus_new_hire_age
                 campus_attrition_rates social_attrition_rates previous_predicted_total_age
                 campus_hiring C final_campus final_structure)
       (\<lambda>(predicted_average_level, predicted_average_age, predicted_campus_ratio,
           predicted_total_age).
     Inr (final_campus, final_social, final_structure,
          predicted_average_level, predicted_average_age, predicted_campus_ratio,
          campus_hiring, C, predicted_total_age)))))))))))"

subsection \<open>\<open>predict_one_year\<close> on a store of dictionary objects\<close>

text \<open>
  The arguments of \<open>predict_one_year\<close> are references to dictionary objects that the caller
  still holds, so whether the function writes to them is a matter of the store. Here the
  store has the dictionaries with integer values and those with float values, each
  found by its reference, and the next reference that is free. A program takes a store
  and raises, or returns a value and the store it leaves.
\<close>

type_synonym ref = nat

record heap =
  int_dicts :: "ref \<Rightarrow> (int \<rightharpoonup> int)"
  float_dicts :: "ref \<Rightarrow> (int \<rightharpoonup> rat)"
  next_ref :: ref

type_synonym 'a prog = "heap \<Rightarrow> error + 'a \<times> heap"

definition then_do :: "'a prog \<Rightarrow> ('a \<Rightarrow> 'b prog) \<Rightarrow> 'b prog" where
  "then_do m f h = (case m h of Inl e \<Rightarrow> Inl e | Inr (a, h') \<Rightarrow> f a h')"

definition done_with :: "'a \<Rightarrow> 'a prog" where
  "done_with a h = Inr (a, h)"

text \<open>An expression, which reads the store and may raise.\<close>

definition eval_in :: "(heap \<Rightarrow> error + 'a) \<Rightarrow> 'a prog" where
  "eval_in e h = (case e h of Inl x \<Rightarrow> Inl x | Inr a \<Rightarrow> Inr (a, h))"

text \<open>A new dictionary object with the entries \<open>d\<close>; the result is its reference.\<close>

definition new_dict :: "(int \<rightharpoonup> int) \<Rightarrow> ref prog" where
  "new_dict d h =
     Inr (next_ref h,
          h\<lparr>int_dicts := (int_dicts h)(next_ref h := d), next_ref := Suc (next_ref h)\<rparr>)"

text \<open>The assignment \<^verbatim>\<open>d[k] = v\<close> to the dictionary object at \<open>r\<close>.\<close>

definition set_item :: "ref \<Rightarrow> int \<Rightarrow> int \<Rightarrow> unit prog" where
  "set_item r k v h = Inr ((), h\<lparr>int_dicts := (int_dicts h)(r := (int_dicts h r)(k \<mapsto> v))\<rparr>)"

text \<open>A dictionary comprehension: its entries are computed, then the object is made.\<close>

definition comprehend :: "(heap \<Rightarrow> error + (int \<rightharpoonup> int)) \<Rightarrow> ref prog" where
  "comprehend e = then_do (eval_in e) new_dict"

fun for_levels :: "(int \<Rightarrow> unit prog) \<Rightarrow> int list \<Rightarrow> unit prog" where
  "for_levels body [] = done_with ()"
| "for_levels body (l # ls) = then_do (body l) (\<lambda>_. for_levels body ls)"

text \<open>The body of the loop of lines 83 to 94, with \<open>A_campus\<close> and \<open>A_social\<close> in the store.\<close>

definition promotion_step_h ::
  "ref \<Rightarrow> ref \<Rightarrow> ref \<Rightarrow> ref \<Rightarrow> ref \<Rightarrow> ref \<Rightarrow> int \<Rightarrow> unit prog" where
  "promotion_step_h cce cse cpr spr A_campus A_social l =
     then_do (eval_in (\<lambda>h. promoted (int_dicts h cce) (float_dicts h cpr) l))
       (\<lambda>promoted_out_campus.
     then_do (eval_in (\<lambda>h. promoted (int_dicts h cse) (float_dicts h spr) l))
       (\<lambda>promoted_out_social.
     then_do (eval_in (\<lambda>h. if l > MIN_LEVEL
                             then promoted (int_dicts h cce) (float_dicts h cpr) (l - 1)
                             else Inr 0)) (\<lambda>promoted_in_campus.
     then_do (eval_in (\<lambda>h. if l > MIN_LEVEL
                             then promoted (int_dicts h cse) (float_dicts h spr) (l - 1)
                             else Inr 0)) (\<lambda>promoted_in_social.
     then_do (eval_in (\<lambda>h. lookup (int_dicts h cce) l)) (\<lambda>campus.
     then_do (set_item A_campus l (campus - promoted_out_campus + promoted_in_campus)) (\<lambda>_.
     then_do (eval_in (\<lambda>h. lookup (int_dicts h cse) l)) (\<lambda>social.
     set_item A_social l (social - promoted_out_social + promoted_in_social))))))))"

text \<open>Lines 126 to 129: the correction of \<open>initial_C\<close>, in place.\<close>

definition adjust_allocation_h :: "int \<Rightarrow> ref \<Rightarrow> unit prog" where
  "adjust_allocation_h total_social_hiring_needed initial_C =
     then_do (eval_in (\<lambda>h. sum_values (int_dicts h initial_C))) (\<lambda>initial_total.
     if initial_total \<noteq> total_social_hiring_needed
     then then_do (eval_in (\<lambda>h. max_key LEVEL_RANGE (lookup (int_dicts h initial_C))))
            (\<lambda>max_hiring_level.
          then_do (eval_in (\<lambda>h. lookup (int_dicts h initial_C) max_hiring_level)) (\<lambda>c.
          set_item initial_C max_hiring_level
            (c + (total_social_hiring_needed - initial_total))))
     else done_with ())"

text \<open>
  The function on the store. Every argument that is a dictionary is the reference of
  one, and so is every dictionary of the result.
\<close>

type_synonym year_result_h = "ref \<times> ref \<times> ref \<times> rat \<times> rat \<times> rat \<times> int \<times> ref \<times> rat"

definition predict_one_year_h ::
  "ref \<Rightarrow> ref \<Rightarrow> ref option \<Rightarrow> ref option \<Rightarrow> ref \<Rightarrow> ref \<Rightarrow> ref \<Rightarrow> rat \<Rightarrow>
   ref \<Rightarrow> ref \<Rightarrow> ref \<Rightarrow> ref \<Rightarrow> ref \<Rightarrow> rat \<Rightarrow> int \<Rightarrow> rat option \<Rightarrow> year_result_h prog" where
  "predict_one_year_h current_campus_employees current_social_employees
       current_campus_ages current_social_ages
       campus_leaving_ages social_leaving_ages social_new_hire_ages campus_new_hire_age
       campus_promotion_rates social_promotion_rates
       campus_attrition_rates social_attrition_rates
       hiring_ratios campus_ratio target_total previous_predicted_total_age =
     then_do (new_dict Map.empty) (\<lambda>A_campus.
     then_do (new_dict Map.empty) (\<lambda>A_social.
     then_do (for_levels
                (promotion_step_h current_campus_employees current_social_employees
                   campus_promotion_rates social_promotion_rates A_campus A_social)
                LEVEL_RANGE) (\<lambda>_.
     then_do (comprehend (\<lambda>h. attrition_pass (int_dicts h A_campus)
                (int_dicts h current_campus_employees) (float_dicts h campus_attrition_rates)))
       (\<lambda>B_campus.
     then_do (comprehend (\<lambda>h. attrition_pass (int_dicts h A_social)
                (int_dicts h current_social_employees) (float_dicts h social_attrition_rates)))
       (\<lambda>B_social.
     then_do (comprehend (\<lambda>h. dict_add (int_dicts h B_campus) (int_dicts h B_social))) (\<lambda>B.
     then_do (eval_in (\<lambda>h. sum_values (int_dicts h B))) (\<lambda>total_B.
     let campus_hiring = py_round (of_int target_total * campus_ratio);
         total_social_hiring_needed = target_total - total_B - campus_hiring
     in
     then_do (comprehend (\<lambda>h. initial_allocation total_social_hiring_needed
                (float_dicts h hiring_ratios))) (\<lambda>initial_C.
     then_do (adjust_allocation_h total_social_hiring_needed initial_C) (\<lambda>_.
     then_do (comprehend (\<lambda>h. clamp_allocation (int_dicts h initial_C))) (\<lambda>C.
     then_do (comprehend (\<lambda>h. add_campus_hiring (int_dicts h B_campus) campus_hiring))
       (\<lambda>final_campus.
     then_do (comprehend (\<lambda>h. dict_add (int_dicts h B_social) (int_dicts h C))) (\<lambda>final_social.
     then_do (comprehend (\<lambda>h. dict_add (int_dicts h final_campus) (int_dicts h final_social)))
       (\<lambda>final_structure.
     then_do (eval_in (\<lambda>h.
                scalars (int_dicts h current_campus_employees)
                  (int_dicts h current_social_employees)
                  (map_option (float_dicts h) current_campus_ages)
                  (map_option (float_dicts h) current_social_ages)
                  (float_dicts h campus_leaving_ages) (float_dicts h social_leaving_ages)
                  (float_dicts h social_new_hire_ages) campus_new_hire_age
                  (float_dicts h campus_attrition_rates) (float_dicts h social_attrition_rates)
                  previous_predicted_total_age campus_hiring (int_dicts h C)
                  (int_dicts h final_campus) (int_dicts h final_structure)))
       (\<lambda>(predicted_average_level, predicted_average_age, predicted_campus_ratio,
           predicted_total_age).
     done_with (final_campus, final_social, final_structure,
                predicted_average_level, predicted_average_age, predicted_campus_ratio,
                campus_hiring, C, predicted_total_age)))))))))))))))"


subsection \<open>Well-formed bundles and the values computed on them\<close>

text \<open>
  A dictionary covers the levels when it has an entry for each of them. On dictionaries
  that cover the levels no lookup fails, and each step of \<open>predict_one_year\<close> has the
  closed form given by the functions below; the lemmas that follow prove it.
\<close>

definition covers :: "(int \<rightharpoonup> 'a) \<Rightarrow> bool" where
  "covers d \<longleftrightarrow> (\<forall>l \<in> set LEVEL_RANGE. d l \<noteq> None)"

definition well_formed ::
  "(int \<rightharpoonup> int) \<Rightarrow> (int \<rightharpoonup> int) \<Rightarrow> (int \<rightharpoonup> rat) \<Rightarrow> (int \<rightharpoonup> rat) \<Rightarrow> (int \<rightharpoonup> rat) \<Rightarrow>
   (int \<rightharpoonup> rat) \<Rightarrow> (int \<rightharpoonup> rat) \<Rightarrow> (int \<rightharpoonup> rat) \<Rightarrow> (int \<rightharpoonup> rat) \<Rightarrow> (int \<rightharpoonup> rat) \<Rightarrow> bool" where
  "well_formed cce cse cla sla snha cpr spr car sar hr \<longleftrightarrow>
     covers cce \<and> covers cse \<and> covers cla \<and> covers sla \<and> covers snha \<and>
     covers cpr \<and> covers spr \<and> covers car \<and> covers sar \<and> covers hr"

text \<open>The ages handed to a call are usable when each mapping that is present covers the levels.\<close>

definition ages_ok :: "(int \<rightharpoonup> rat) option \<Rightarrow> bool" where
  "ages_ok ages = (case ages of None \<Rightarrow> True | Some a \<Rightarrow> covers a)"

text \<open>The dictionary with the entry \<open>g l\<close> at each level \<open>l\<close>, and the sum of \<open>g\<close> over the levels.\<close>

definition level_map :: "(int \<Rightarrow> 'a) \<Rightarrow> int \<rightharpoonup> 'a" where
  "level_map g = (\<lambda>k. if k \<in> set LEVEL_RANGE then Some (g k) else None)"

definition level_sum :: "(int \<Rightarrow> 'n) \<Rightarrow> ('n::monoid_add)" where
  "level_sum g = sum_list (map g LEVEL_RANGE)"

text \<open>The dictionary with the given values at the levels 1, 2, ..., and its entries back.\<close>

definition level_dict :: "'a list \<Rightarrow> (int \<rightharpoonup> 'a)" where
  "level_dict vs = map_of (zip LEVEL_RANGE vs)"

definition entries :: "(int \<rightharpoonup> 'a) \<Rightarrow> 'a option list" where
  "entries d = map d LEVEL_RANGE"

definition promoted_n :: "(int \<rightharpoonup> int) \<Rightarrow> (int \<rightharpoonup> rat) \<Rightarrow> int \<Rightarrow> int" where
  "promoted_n employees rates l = py_round (of_int (the (employees l)) * the (rates l))"

definition post_promotion :: "(int \<rightharpoonup> int) \<Rightarrow> (int \<rightharpoonup> rat) \<Rightarrow> int \<Rightarrow> int" where
  "post_promotion employees rates l =
     the (employees l) - promoted_n employees rates l
       + (if l > MIN_LEVEL then promoted_n employees rates (l - 1) else 0)"

definition post_attrition :: "(int \<Rightarrow> int) \<Rightarrow> (int \<rightharpoonup> int) \<Rightarrow> (int \<rightharpoonup> rat) \<Rightarrow> int \<Rightarrow> int" where
  "post_attrition A employees rates l =
     py_round (of_int (A l) - of_int (the (employees l)) * the (rates l))"

definition B_n :: "(int \<rightharpoonup> int) \<Rightarrow> (int \<rightharpoonup> rat) \<Rightarrow> (int \<rightharpoonup> rat) \<Rightarrow> int \<Rightarrow> int" where
  "B_n employees promotion_rates attrition_rates =
     post_attrition (post_promotion employees promotion_rates) employees attrition_rates"

definition campus_hiring_n :: "int \<Rightarrow> rat \<Rightarrow> int" where
  "campus_hiring_n tt cr = py_round (of_int tt * cr)"

definition social_needed_n ::
  "(int \<rightharpoonup> int) \<Rightarrow> (int \<rightharpoonup> int) \<Rightarrow> (int \<rightharpoonup> rat) \<Rightarrow> (int \<rightharpoonup> rat) \<Rightarrow>
   (int \<rightharpoonup> rat) \<Rightarrow> (int \<rightharpoonup> rat) \<Rightarrow> rat \<Rightarrow> int \<Rightarrow> int" where
  "social_needed_n cce cse cpr spr car sar cr tt =
     tt - level_sum (\<lambda>l. B_n cce cpr car l + B_n cse spr sar l) - campus_hiring_n tt cr"

text \<open>The item that \<^verbatim>\<open>max(ks, key=g)\<close> returns on a list that is not empty.\<close>

definition first_max :: "(int \<Rightarrow> int) \<Rightarrow> int list \<Rightarrow> int" where
  "first_max g ks = fst (max_key_loop (hd ks, g (hd ks)) (map (\<lambda>k. (k, g k)) (tl ks)))"

definition adjusted :: "int \<Rightarrow> (int \<Rightarrow> int) \<Rightarrow> int \<Rightarrow> int" where
  "adjusted t g =
     (let s = level_sum g
      in if s \<noteq> t then g(first_max g LEVEL_RANGE := g (first_max g LEVEL_RANGE) + (t - s)) else g)"

definition allocation :: "int \<Rightarrow> (int \<rightharpoonup> rat) \<Rightarrow> int \<Rightarrow> int" where
  "allocation t hr = (\<lambda>l. max 0 (adjusted t (\<lambda>l. py_round (of_int t * the (hr l))) l))"

text \<open>The age-mass returned, from the age-mass \<open>start\<close> that the year begins with.\<close>

definition total_age_n ::
  "(int \<rightharpoonup> int) \<Rightarrow> (int \<rightharpoonup> int) \<Rightarrow> (int \<rightharpoonup> rat) \<Rightarrow> (int \<rightharpoonup> rat) \<Rightarrow> (int \<rightharpoonup> rat) \<Rightarrow> rat \<Rightarrow>
   (int \<rightharpoonup> rat) \<Rightarrow> (int \<rightharpoonup> rat) \<Rightarrow> int \<Rightarrow> (int \<Rightarrow> int) \<Rightarrow> rat \<Rightarrow> rat" where
  "total_age_n cce cse cla sla snha cnha car sar hires C start =
     start
     - (level_sum (\<lambda>l. of_int (the (cce l)) * the (car l) * the (cla l))
        + level_sum (\<lambda>l. of_int (the (cse l)) * the (sar l) * the (sla l)))
     + (of_int (level_sum (\<lambda>l. the (cce l) + the (cse l)))
        - (level_sum (\<lambda>l. of_int (the (cce l)) * the (car l))
           + level_sum (\<lambda>l. of_int (the (cse l)) * the (sar l)))) * 1
     + of_int hires * cnha
     + level_sum (\<lambda>l. of_int (C l) * the (snha l))"

text \<open>The tuple returned on a well-formed bundle, from the starting age-mass.\<close>

definition one_year ::
  "(int \<rightharpoonup> int) \<Rightarrow> (int \<rightharpoonup> int) \<Rightarrow>
   (int \<rightharpoonup> rat) \<Rightarrow> (int \<rightharpoonup> rat) \<Rightarrow> (int \<rightharpoonup> rat) \<Rightarrow> rat \<Rightarrow>
   (int \<rightharpoonup> rat) \<Rightarrow> (int \<rightharpoonup> rat) \<Rightarrow> (int \<rightharpoonup> rat) \<Rightarrow> (int \<rightharpoonup> rat) \<Rightarrow>
   (int \<rightharpoonup> rat) \<Rightarrow> rat \<Rightarrow> int \<Rightarrow> rat \<Rightarrow> year_result" where
  "one_year cce cse cla sla snha cnha cpr spr car sar hr cr tt start =
     (let B_campus = B_n cce cpr car;
          B_social = B_n cse spr sar;
          hires = campus_hiring_n tt cr;
          C = allocation (social_needed_n cce cse cpr spr car sar cr tt) hr;
          fin_campus = (\<lambda>l. B_campus l + (if l = MIN_LEVEL then hires else 0));
          fin_social = (\<lambda>l. B_social l + C l);
          fin_structure = (\<lambda>l. fin_campus l + fin_social l);
          predicted_total = level_sum fin_structure;
          predicted_total_age = total_age_n cce cse cla sla snha cnha car sar hires C start
      in (level_map fin_campus, level_map fin_social, level_map fin_structure,
          (if predicted_total \<noteq> 0
           then of_int (level_sum (\<lambda>l. l * fin_structure l)) / of_int predicted_total else 0),
          (if predicted_total \<noteq> 0 then predicted_total_age / of_int predicted_total else 0),
          (if predicted_total > 0
           then of_int (level_sum fin_campus) / of_int predicted_total else 0),
          hires, level_map C, predicted_total_age))"

subsection \<open>\<^verbatim>\<open>HRPredictor.predict_multiple_years\<close>\<close>

text \<open>
  \<open>initial_params\<close> is a dictionary with fifteen string keys; it is a record with one field
  for each key.
\<close>

record params =
  current_campus_employees :: "int \<rightharpoonup> int"
  current_social_employees :: "int \<rightharpoonup> int"
  current_campus_ages :: "int \<rightharpoonup> rat"
  current_social_ages :: "int \<rightharpoonup> rat"
  campus_leaving_ages :: "int \<rightharpoonup> rat"
  social_leaving_ages :: "int \<rightharpoonup> rat"
  social_new_hire_ages :: "int \<rightharpoonup> rat"
  campus_new_hire_age :: rat
  campus_promotion_rates :: "int \<rightharpoonup> rat"
  social_promotion_rates :: "int \<rightharpoonup> rat"
  campus_attrition_rates :: "int \<rightharpoonup> rat"
  social_attrition_rates :: "int \<rightharpoonup> rat"
  hiring_ratios :: "int \<rightharpoonup> rat"
  campus_ratio :: rat
  target_total :: int

text \<open>
  The dictionary appended for each year at lines 294 to 307. Its key \<^verbatim>\<open>'campus_ratio'\<close> is
  the field \<open>campus_ratio_y\<close>, since \<open>initial_params\<close> has a key of the same name.
\<close>

record year_record =
  year :: int
  current_campus :: "int \<rightharpoonup> int"
  current_social :: "int \<rightharpoonup> int"
  final_campus :: "int \<rightharpoonup> int"
  final_social :: "int \<rightharpoonup> int"
  final_structure :: "int \<rightharpoonup> int"
  average_level :: rat
  average_age :: rat
  campus_ratio_y :: rat
  campus_hiring :: int
  social_hiring :: "int \<rightharpoonup> int"
  total_age :: rat

text \<open>\<^verbatim>\<open>range(n)\<close>: the integers from 0 up to \<open>n - 1\<close>, none when \<open>n \<le> 0\<close>.\<close>

definition py_range :: "int \<Rightarrow> int list" where
  "py_range n = [0..n - 1]"

text \<open>
  The variables that the loop of lines 260 to 312 updates: \<open>current_year_campus\<close>,
  \<open>current_year_social\<close>, \<open>previous_predicted_total_age\<close> and \<open>multi_year_results\<close>.
\<close>

type_synonym loop_state =
  "(int \<rightharpoonup> int) \<times> (int \<rightharpoonup> int) \<times> rat option \<times> year_record list"

text \<open>One iteration of the loop, for the index \<open>y\<close> of the year.\<close>

definition year_step :: "params \<Rightarrow> loop_state \<Rightarrow> int \<Rightarrow> error + loop_state" where
  "year_step initial_params st y =
     (case st of
        (current_year_campus, current_year_social, previous_predicted_total_age,
         multi_year_results) \<Rightarrow>
     bind_err
       (predict_one_year
          current_year_campus
          current_year_social
          (if y = 0 then Some (current_campus_ages initial_params) else None)
          (if y = 0 then Some (current_social_ages initial_params) else None)
          (campus_leaving_ages initial_params)
          (social_leaving_ages initial_params)
          (social_new_hire_ages initial_params)
          (campus_new_hire_age initial_params)
          (campus_promotion_rates initial_params)
          (social_promotion_rates initial_params)
          (campus_attrition_rates initial_params)
          (social_attrition_rates initial_params)
          (hiring_ratios initial_params)
          (campus_ratio initial_params)
          (target_total initial_params)
          (if y > 0 then previous_predicted_total_age else None))
       (\<lambda>(fin_campus, fin_social, fin_structure, predicted_average_level,
           predicted_average_age, predicted_campus_ratio, campus_hires, social_hires,
           predicted_total_age).
          Inr (fin_campus, fin_social, Some predicted_total_age,
               multi_year_results @
               [\<lparr>year = y + 1,
                 current_campus = current_year_campus,
                 current_social = current_year_social,
                 final_campus = fin_campus,
                 final_social = fin_social,
                 final_structure = fin_structure,
                 average_level = predicted_average_level,
                 average_age = predicted_average_age,
                 campus_ratio_y = predicted_campus_ratio,
                 campus_hiring = campus_hires,
                 social_hiring = social_hires,
                 total_age = predicted_total_age\<rparr>])))"

definition predict_multiple_years :: "params \<Rightarrow> int \<Rightarrow> error + year_record list" where
  "predict_multiple_years initial_params forecast_years =
     bind_err
       (for_each (year_step initial_params) (py_range forecast_years)
          (current_campus_employees initial_params, current_social_employees initial_params,
           None, []))
       (\<lambda>st. Inr (snd (snd (snd st))))"

subsection \<open>\<^verbatim>\<open>DataProcessor.calculate_current_metrics\<close>\<close>

text \<open>
  The data frame is a list of rows with the columns of \<open>REQUIRED_COLUMNS\<close>; a column is
  the list of its values, and the arithmetic on columns is row by row.
\<close>

record row =
  level :: int
  campus_employee :: int
  social_employee :: int
  campus_age :: rat
  social_age :: rat
  campus_leaving_age :: rat
  social_leaving_age :: rat
  social_new_hire_age :: rat
  campus_promotion_rate :: rat
  social_promotion_rate :: rat
  campus_attrition_rate :: rat
  social_attrition_rate :: rat
  hiring_ratio :: rat

record metrics =
  current_total :: int
  current_average_level :: rat
  current_average_age :: rat
  current_campus_ratio :: rat

definition calculate_current_metrics :: "row list \<Rightarrow> error + metrics" where
  "calculate_current_metrics df =
     (let total_employees = map (\<lambda>r. campus_employee r + social_employee r) df;
          total = sum_list total_employees
      in
      bind_err (if total \<noteq> 0
                then py_truediv
                       (of_int (sum_list (map (\<lambda>r. level r * (campus_employee r + social_employee r)) df)))
                       (of_int total)
                else Inr 0) (\<lambda>average_level_now.
      let total_age_now =
            sum_list (map (\<lambda>r. of_int (campus_employee r) * campus_age r
                                + of_int (social_employee r) * social_age r) df)
      in
      bind_err (if total \<noteq> 0 then py_truediv total_age_now (of_int total) else Inr 0)
        (\<lambda>average_age_now.
      bind_err (if total > 0
                then py_truediv (of_int (sum_list (map campus_employee df))) (of_int total)
                else Inr 0) (\<lambda>campus_ratio_now.
      Inr \<lparr>current_total = total,
           current_average_level = average_level_now,
           current_average_age = average_age_now,
           current_campus_ratio = campus_ratio_now\<rparr>))))"

subsection \<open>Reading results, and the concrete bundles used below\<close>

text \<open>The components of the returned tuple, by the names of line 223.\<close>

definition final_campus_of :: "year_result \<Rightarrow> (int \<rightharpoonup> int)" where
  "final_campus_of r = fst r"

definition final_social_of :: "year_result \<Rightarrow> (int \<rightharpoonup> int)" where
  "final_social_of r = fst (snd r)"

definition final_structure_of :: "year_result \<Rightarrow> (int \<rightharpoonup> int)" where
  "final_structure_of r = fst (snd (snd r))"

definition average_level_of :: "year_result \<Rightarrow> rat" where
  "average_level_of r = fst (snd (snd (snd r)))"

definition average_age_of :: "year_result \<Rightarrow> rat" where
  "average_age_of r = fst (snd (snd (snd (snd r))))"

definition campus_ratio_of :: "year_result \<Rightarrow> rat" where
  "campus_ratio_of r = fst (snd (snd (snd (snd (snd r)))))"

definition campus_hiring_of :: "year_result \<Rightarrow> int" where
  "campus_hiring_of r = fst (snd (snd (snd (snd (snd (snd r))))))"

definition social_hiring_of :: "year_result \<Rightarrow> (int \<rightharpoonup> int)" where
  "social_hiring_of r = fst (snd (snd (snd (snd (snd (snd (snd r)))))))"

definition total_age_of :: "year_result \<Rightarrow> rat" where
  "total_age_of r = snd (snd (snd (snd (snd (snd (snd (snd r)))))))"

text \<open>The returned tuple with each dictionary replaced by its entries at the levels 1 to 7.\<close>

definition view ::
  "year_result \<Rightarrow>
   int option list \<times> int option list \<times> int option list \<times> rat \<times> rat \<times> rat \<times> int \<times>
   int option list \<times> rat" where
  "view r =
     (case r of (fin_campus, fin_social, fin_structure, al, aa, ratio, hires, C, ta) \<Rightarrow>
        (entries fin_campus, entries fin_social, entries fin_structure, al, aa, ratio, hires,
         entries C, ta))"

definition observe :: "error + year_result \<Rightarrow> error + _" where
  "observe m = (case m of Inl e \<Rightarrow> Inl e | Inr r \<Rightarrow> Inr (view r))"

text \<open>
  The scenario of the specification: 100 campus and 100 social employees at level 1 and
  nobody above, one value at all levels for each rate and each age, and all social hires
  allocated to level 1.
\<close>

definition scenario_employees :: "int \<rightharpoonup> int" where
  "scenario_employees = level_dict [100, 0, 0, 0, 0, 0, 0]"

definition constant_dict :: "'a \<Rightarrow> (int \<rightharpoonup> 'a)" where
  "constant_dict v = level_dict [v, v, v, v, v, v, v]"

definition scenario_hiring_ratios :: "int \<rightharpoonup> rat" where
  "scenario_hiring_ratios = level_dict [1, 0, 0, 0, 0, 0, 0]"



text \<open>
  Four employees at level 2 in each channel, with a promotion rate of 0.5 and an
  attrition rate of 0.75 (see \<open>shrinking_year\<close> below).
\<close>

definition shrinking_employees :: "int \<rightharpoonup> int" where
  "shrinking_employees = level_dict [0, 4, 0, 0, 0, 0, 0]"


text \<open>Four employees at level 6 and ten at level 7, in each channel.\<close>

definition top_employees :: "int \<rightharpoonup> int" where
  "top_employees = level_dict [0, 0, 0, 0, 0, 4, 10]"

text \<open>Social hires allocated in thirds to the levels 1, 2 and 3.\<close>

definition thirds :: "int \<rightharpoonup> rat" where
  "thirds = level_dict [1 / 3, 1 / 3, 1 / 3, 0, 0, 0, 0]"

text \<open>The scenario of the specification as the dictionary \<open>initial_params\<close>.\<close>

definition scenario_params :: params where
  "scenario_params =
     \<lparr>current_campus_employees = scenario_employees,
      current_social_employees = scenario_employees,
      current_campus_ages = constant_dict 30,
      current_social_ages = constant_dict 30,
      campus_leaving_ages = constant_dict 30,
      social_leaving_ages = constant_dict 30,
      social_new_hire_ages = constant_dict 30,
      campus_new_hire_age = 30,
      campus_promotion_rates = constant_dict 0,
      social_promotion_rates = constant_dict 0,
      campus_attrition_rates = constant_dict (1 / 10),
      social_attrition_rates = constant_dict (1 / 10),
      hiring_ratios = scenario_hiring_ratios,
      campus_ratio = 1 / 2,
      target_total = 200\<rparr>"

subsection \<open>Chaining of the years\<close>

text \<open>The tuple of \<open>predict_one_year\<close> that a year record stores, and the record made from one.\<close>

definition record_result :: "year_record \<Rightarrow> year_result" where
  "record_result rec =
     (final_campus rec, final_social rec, final_structure rec, average_level rec,
      average_age rec, campus_ratio_y rec, campus_hiring rec, social_hiring rec, total_age rec)"

definition make_record ::
  "int \<Rightarrow> (int \<rightharpoonup> int) \<Rightarrow> (int \<rightharpoonup> int) \<Rightarrow> year_result \<Rightarrow> year_record" where
  "make_record n start_campus start_social r =
     \<lparr>year = n, current_campus = start_campus, current_social = start_social,
      final_campus = final_campus_of r, final_social = final_social_of r,
      final_structure = final_structure_of r, average_level = average_level_of r,
      average_age = average_age_of r, campus_ratio_y = campus_ratio_of r,
      campus_hiring = campus_hiring_of r, social_hiring = social_hiring_of r,
      total_age = total_age_of r\<rparr>"

definition params_ok :: "params \<Rightarrow> bool" where
  "params_ok p \<longleftrightarrow>
     well_formed (current_campus_employees p) (current_social_employees p)
       (campus_leaving_ages p) (social_leaving_ages p) (social_new_hire_ages p)
       (campus_promotion_rates p) (social_promotion_rates p)
       (campus_attrition_rates p) (social_attrition_rates p) (hiring_ratios p) \<and>
     covers (current_campus_ages p) \<and> covers (current_social_ages p)"

text \<open>
  In the words of the specification: the single call of \<open>predict_one_year\<close> for year 1, on
  the starting head counts and ages of the caller, and the single call for a year
  \<open>k > 1\<close>, whose starting head counts are \<open>final_campus\<close> and \<open>final_social\<close> of the record of
  year \<open>k - 1\<close>, whose carried age-mass is that record's \<open>total_age\<close>, and which is given no
  ages.
\<close>

definition first_year :: "params \<Rightarrow> error + year_result" where
  "first_year p =
     predict_one_year (current_campus_employees p) (current_social_employees p)
       (Some (current_campus_ages p)) (Some (current_social_ages p))
       (campus_leaving_ages p) (social_leaving_ages p) (social_new_hire_ages p)
       (campus_new_hire_age p) (campus_promotion_rates p) (social_promotion_rates p)
       (campus_attrition_rates p) (social_attrition_rates p) (hiring_ratios p)
       (campus_ratio p) (target_total p) None"

definition next_year :: "params \<Rightarrow> year_record \<Rightarrow> error + year_result" where
  "next_year p rec =
     predict_one_year (final_campus rec) (final_social rec) None None
       (campus_leaving_ages p) (social_leaving_ages p) (social_new_hire_ages p)
       (campus_new_hire_age p) (campus_promotion_rates p) (social_promotion_rates p)
       (campus_attrition_rates p) (social_attrition_rates p) (hiring_ratios p)
       (campus_ratio p) (target_total p) (Some (total_age rec))"

text \<open>What holds of the records after some iterations of the loop, and of its variables.\<close>

definition chained :: "params \<Rightarrow> year_record list \<Rightarrow> bool" where
  "chained p rs \<longleftrightarrow>
     (\<forall>i < length rs. year (rs ! i) = int i + 1 \<and>
        covers (final_campus (rs ! i)) \<and> covers (final_social (rs ! i))) \<and>
     (rs \<noteq> [] \<longrightarrow> first_year p = Inr (record_result (rs ! 0)) \<and>
        current_campus (rs ! 0) = current_campus_employees p \<and>
        current_social (rs ! 0) = current_social_employees p) \<and>
     (\<forall>i. Suc i < length rs \<longrightarrow>
        next_year p (rs ! i) = Inr (record_result (rs ! Suc i)) \<and>
        current_campus (rs ! Suc i) = final_campus (rs ! i) \<and>
        current_social (rs ! Suc i) = final_social (rs ! i))"

definition loop_inv :: "params \<Rightarrow> nat \<Rightarrow> loop_state \<Rightarrow> bool" where
  "loop_inv p n st \<longleftrightarrow>
     (case st of (c, s, prev, rs) \<Rightarrow>
        length rs = n \<and> chained p rs \<and>
        (if n = 0 then c = current_campus_employees p \<and> s = current_social_employees p
         else c = final_campus (last rs) \<and> s = final_social (last rs) \<and>
              prev = Some (total_age (last rs))))"

subsection \<open>An all-zero table\<close>

text \<open>A row of level \<open>l\<close> with no employees, and the table of such rows for the levels 1 to 7.\<close>

definition empty_row :: "int \<Rightarrow> row" where
  "empty_row l =
     \<lparr>level = l, campus_employee = 0, social_employee = 0,
      campus_age = 30, social_age = 30, campus_leaving_age = 30, social_leaving_age = 30,
      social_new_hire_age = 30, campus_promotion_rate = 1 / 10, social_promotion_rate = 1 / 10,
      campus_attrition_rate = 1 / 10, social_attrition_rate = 1 / 10, hiring_ratio = 1 / 7\<rparr>"

definition empty_table :: "row list" where
  "empty_table = map empty_row LEVEL_RANGE"

subsection \<open>The result of a run on the store\<close>

text \<open>
  The tuple of dictionaries that a result on the store stands for, and the outcome of a
  run with the store it leaves put aside.
\<close>

definition read_result :: "heap \<Rightarrow> year_result_h \<Rightarrow> year_result" where
  "read_result h res =
     (case res of (fin_campus, fin_social, fin_structure, al, aa, ratio, hires, C, ta) \<Rightarrow>
        (int_dicts h fin_campus, int_dicts h fin_social, int_dicts h fin_structure,
         al, aa, ratio, hires, int_dicts h C, ta))"

definition outcome :: "error + year_result_h \<times> heap \<Rightarrow> error + year_result" where
  "outcome m = (case m of Inl e \<Rightarrow> Inl e | Inr (res, h) \<Rightarrow> Inr (read_result h res))"

subsection \<open>A store for the scenario\<close>




section \<open>Basic facts\<close>

subsection \<open>Sequencing, lookups and loops\<close>

lemma bind_err_Inr [simp]: "bind_err (Inr v) f = f v"
  by (simp add: bind_err_def)

lemma bind_err_Inl [simp]: "bind_err (Inl e) f = Inl e"
  by (simp add: bind_err_def)

lemma bind_err_eq_Inr: "bind_err m f = Inr r \<longleftrightarrow> (\<exists>v. m = Inr v \<and> f v = Inr r)"
  by (cases m) simp_all

lemma lookup_Some [simp]: "d k = Some v \<Longrightarrow> lookup d k = Inr v"
  by (simp add: lookup_def)

lemma lookup_None [simp]: "d k = None \<Longrightarrow> lookup d k = Inl KeyError"
  by (simp add: lookup_def)

lemma py_truediv_Inr [simp]: "b \<noteq> 0 \<Longrightarrow> py_truediv a b = Inr (a / b)"
  by (simp add: py_truediv_def)

lemma guarded_div:
  "(P \<Longrightarrow> b \<noteq> 0) \<Longrightarrow> (if P then py_truediv a b else Inr 0) = Inr (if P then a / b else 0)"
  by (cases P) simp_all

lemma guarded_sum_div:
  "(P \<Longrightarrow> b \<noteq> 0) \<Longrightarrow> m = Inr s \<Longrightarrow>
   (if P then bind_err m (\<lambda>s. py_truediv (of_int s) b) else Inr 0)
     = Inr (if P then of_int s / b else 0)"
  by (cases P) simp_all

lemma LEVEL_RANGE_eq: "LEVEL_RANGE = [1, 2, 3, 4, 5, 6, 7]"
  by (simp add: LEVEL_RANGE_def MIN_LEVEL_def MAX_LEVEL_def upto.simps)

lemma set_LEVEL_RANGE: "set LEVEL_RANGE = {1..7}"
  by (simp add: LEVEL_RANGE_def MIN_LEVEL_def MAX_LEVEL_def)

lemma LEVEL_RANGE_nonempty: "LEVEL_RANGE \<noteq> []"
  by (simp add: LEVEL_RANGE_eq)

lemma pred_level: "l \<in> set LEVEL_RANGE \<Longrightarrow> MIN_LEVEL < l \<Longrightarrow> l - 1 \<in> set LEVEL_RANGE"
  by (simp add: set_LEVEL_RANGE MIN_LEVEL_def)

lemma level_map_apply [simp]: "l \<in> set LEVEL_RANGE \<Longrightarrow> level_map g l = Some (g l)"
  by (simp add: level_map_def)

lemma covers_level_map [simp]: "covers (level_map g)"
  by (simp add: covers_def)

lemma covers_lookup: "covers d \<Longrightarrow> l \<in> set LEVEL_RANGE \<Longrightarrow> lookup d l = Inr (the (d l))"
  by (auto simp: covers_def)

lemma level_map_upd:
  "m \<in> set LEVEL_RANGE \<Longrightarrow> (level_map g)(m \<mapsto> v) = level_map (g(m := v))"
  by (auto simp: level_map_def)

lemma for_each_dict:
  "\<forall>k \<in> set ks. f k = Inr (g k) \<Longrightarrow>
   for_each (\<lambda>d k. bind_err (f k) (\<lambda>v. Inr (d(k \<mapsto> v)))) ks d0
     = Inr (\<lambda>k. if k \<in> set ks then Some (g k) else d0 k)"
proof (induction ks arbitrary: d0)
  case Nil
  then show ?case by simp
next
  case (Cons a ks)
  then show ?case by auto
qed

lemma dict_comp_level:
  "\<forall>k \<in> set LEVEL_RANGE. f k = Inr (g k) \<Longrightarrow> dict_comp LEVEL_RANGE f = Inr (level_map g)"
  unfolding dict_comp_def level_map_def by (simp add: for_each_dict)

lemma for_each_sum:
  "\<forall>k \<in> set ks. f k = Inr (g k) \<Longrightarrow>
   for_each (\<lambda>acc k. bind_err (f k) (\<lambda>v. Inr (acc + v))) ks a
     = Inr (a + sum_list (map g ks))"
  by (induction ks arbitrary: a) (simp_all add: add.assoc)

lemma sum_gen_level:
  "\<forall>k \<in> set LEVEL_RANGE. f k = Inr (g k) \<Longrightarrow> sum_gen LEVEL_RANGE f = Inr (level_sum g)"
  using for_each_sum [of LEVEL_RANGE f g 0] by (simp add: sum_gen_def level_sum_def)

lemma sum_values_level: "sum_values (level_map g) = Inr (level_sum g)"
  unfolding sum_values_def by (rule sum_gen_level) simp

lemma for_each_pair:
  assumes "\<And>k A. k \<in> set ks \<Longrightarrow> step A k = Inr ((fst A)(k \<mapsto> g k), (snd A)(k \<mapsto> h k))"
  shows "for_each step ks (a0, b0) =
     Inr (\<lambda>k. if k \<in> set ks then Some (g k) else a0 k,
          \<lambda>k. if k \<in> set ks then Some (h k) else b0 k)"
  using assms
proof (induction ks arbitrary: a0 b0)
  case Nil
  then show ?case by simp
next
  case (Cons a ks)
  have s: "step (a0, b0) a = Inr (a0(a \<mapsto> g a), b0(a \<mapsto> h a))"
    by (rule Cons.prems [of a "(a0, b0)", unfolded fst_conv snd_conv]) simp
  have r: "for_each step ks (a0(a \<mapsto> g a), b0(a \<mapsto> h a)) =
             Inr (\<lambda>k. if k \<in> set ks then Some (g k) else (a0(a \<mapsto> g a)) k,
                  \<lambda>k. if k \<in> set ks then Some (h k) else (b0(a \<mapsto> h a)) k)"
    by (rule Cons.IH) (rule Cons.prems, simp)
  show ?case
    unfolding for_each.simps s bind_err_Inr r by auto
qed

lemma for_each_append:
  "for_each f (xs @ ys) s = bind_err (for_each f xs s) (for_each f ys)"
proof (induction xs arbitrary: s)
  case Nil
  then show ?case by simp
next
  case (Cons x xs)
  then show ?case by (cases "f s x") simp_all
qed

subsection \<open>The steps of \<open>predict_one_year\<close> on dictionaries that cover the levels\<close>

lemma promoted_Inr:
  "covers employees \<Longrightarrow> covers rates \<Longrightarrow> l \<in> set LEVEL_RANGE \<Longrightarrow>
   promoted employees rates l = Inr (promoted_n employees rates l)"
  by (simp add: promoted_def promoted_n_def covers_lookup)

lemma promotion_step_Inr:
  assumes "covers cce" "covers cse" "covers cpr" "covers spr" "l \<in> set LEVEL_RANGE"
  shows "promotion_step cce cse cpr spr A l =
           Inr ((fst A)(l \<mapsto> post_promotion cce cpr l), (snd A)(l \<mapsto> post_promotion cse spr l))"
  using assms
  by (simp add: promotion_step_def post_promotion_def promoted_Inr covers_lookup pred_level)

lemma promotion_pass_Inr:
  assumes "covers cce" "covers cse" "covers cpr" "covers spr"
  shows "promotion_pass cce cse cpr spr =
           Inr (level_map (post_promotion cce cpr), level_map (post_promotion cse spr))"
  using for_each_pair [where ks = LEVEL_RANGE and step = "promotion_step cce cse cpr spr"
      and g = "post_promotion cce cpr" and h = "post_promotion cse spr"
      and ?a0.0 = Map.empty and ?b0.0 = Map.empty, OF promotion_step_Inr [OF assms]]
  unfolding promotion_pass_def level_map_def by simp

lemma attrition_pass_Inr:
  assumes "covers employees" "covers rates"
  shows "attrition_pass (level_map A) employees rates =
           Inr (level_map (post_attrition A employees rates))"
  unfolding attrition_pass_def
  by (rule dict_comp_level) (simp add: post_attrition_def covers_lookup assms)

lemma dict_add_Inr:
  "dict_add (level_map X) (level_map Y) = Inr (level_map (\<lambda>l. X l + Y l))"
  unfolding dict_add_def by (rule dict_comp_level) simp

lemma add_campus_hiring_Inr:
  "add_campus_hiring (level_map B) n =
     Inr (level_map (\<lambda>l. B l + (if l = MIN_LEVEL then n else 0)))"
  unfolding add_campus_hiring_def by (rule dict_comp_level) simp

lemma initial_allocation_Inr:
  assumes "covers hr"
  shows "initial_allocation t hr = Inr (level_map (\<lambda>l. py_round (of_int t * the (hr l))))"
  unfolding initial_allocation_def
  by (rule dict_comp_level) (simp add: covers_lookup assms)

lemma clamp_allocation_Inr:
  "clamp_allocation (level_map g) = Inr (level_map (\<lambda>l. max 0 (g l)))"
  unfolding clamp_allocation_def by (rule dict_comp_level) simp

subsection \<open>The first maximal item\<close>

lemma for_each_collect:
  "\<forall>k \<in> set ks. key k = Inr (g k) \<Longrightarrow>
   for_each (\<lambda>acc k. bind_err (key k) (\<lambda>v. Inr (acc @ [(k, v)]))) ks acc0
     = Inr (acc0 @ map (\<lambda>k. (k, g k)) ks)"
  by (induction ks arbitrary: acc0) simp_all

lemma max_key_Inr:
  assumes "\<forall>k \<in> set ks. key k = Inr (g k)" "ks \<noteq> []"
  shows "max_key ks key = Inr (first_max g ks)"
proof -
  obtain k rest where ks: "ks = k # rest"
    using assms(2) by (cases ks) auto
  show ?thesis
    unfolding max_key_def first_max_def
    using for_each_collect [OF assms(1), of "[]"] by (simp add: ks)
qed

lemma max_key_loop_props:
  assumes "sorted_wrt (<) (b # xs)"
    and "max_key_loop (b, g b) (map (\<lambda>k. (k, g k)) xs) = (r, v)"
  shows "v = g r \<and> r \<in> set (b # xs) \<and>
         (\<forall>k \<in> set (b # xs). g k \<le> g r \<and> (k < r \<longrightarrow> g k < g r))"
  using assms
proof (induction xs arbitrary: b)
  case Nil
  then show ?case by auto
next
  case (Cons x xs)
  define b' where "b' = (if g b < g x then x else b)"
  have loop: "max_key_loop (b', g b') (map (\<lambda>k. (k, g k)) xs) = (r, v)"
    using Cons.prems(2) by (simp add: b'_def split: if_splits)
  have srt: "sorted_wrt (<) (b' # xs)"
    using Cons.prems(1) by (auto simp: b'_def)
  from Cons.IH [OF srt loop]
  have v: "v = g r" and r: "r \<in> set (b' # xs)"
    and mx: "\<And>k. k \<in> set (b' # xs) \<Longrightarrow> g k \<le> g r \<and> (k < r \<longrightarrow> g k < g r)"
    by auto
  have bx: "b < x"
    using Cons.prems(1) by auto
  have b'r: "g b' \<le> g r" "b' < r \<Longrightarrow> g b' < g r"
    using mx [of b'] by auto
  show ?case
  proof (intro conjI ballI impI)
    show "v = g r" by (rule v)
    show "r \<in> set (b # x # xs)" using r by (auto simp: b'_def split: if_splits)
  next
    fix k assume k: "k \<in> set (b # x # xs)"
    have "g b \<le> g b'" "g x \<le> g b'"
      by (simp_all add: b'_def)
    then have "g b \<le> g r" "g x \<le> g r"
      using b'r(1) by linarith+
    then show "g k \<le> g r"
      using k mx [of k] by auto
  next
    fix k assume k: "k \<in> set (b # x # xs)" and lt: "k < r"
    show "g k < g r"
    proof (cases "k \<in> set xs")
      case True
      then show ?thesis using mx [of k] lt by simp
    next
      case False
      then have kk: "k = b \<or> k = x" using k by auto
      show ?thesis
      proof (cases "g b < g x")
        case True
        then have "b' = x" by (simp add: b'_def)
        then show ?thesis using kk True b'r lt by auto
      next
        case False
        then have b'b: "b' = b" by (simp add: b'_def)
        have "b < r" using kk lt bx by auto
        then have "g b < g r" using b'r b'b by simp
        then show ?thesis using kk False by auto
      qed
    qed
  qed
qed

lemma first_max_LEVEL_RANGE:
  "first_max g LEVEL_RANGE \<in> set LEVEL_RANGE \<and>
   (\<forall>k \<in> set LEVEL_RANGE. g k \<le> g (first_max g LEVEL_RANGE) \<and>
      (k < first_max g LEVEL_RANGE \<longrightarrow> g k < g (first_max g LEVEL_RANGE)))"
proof -
  obtain r v where rv: "max_key_loop (1, g 1) (map (\<lambda>k. (k, g k)) [2, 3, 4, 5, 6, 7]) = (r, v)"
    by (cases "max_key_loop (1, g 1) (map (\<lambda>k. (k, g k)) [2, 3, 4, 5, 6, 7])") auto
  have "sorted_wrt (<) (1 # [2, 3, 4, 5, 6, 7 :: int])" by simp
  from max_key_loop_props [OF this rv]
  show ?thesis
    unfolding first_max_def LEVEL_RANGE_eq using rv by simp
qed

lemma adjust_allocation_Inr:
  "adjust_allocation t (level_map g) = Inr (level_map (adjusted t g))"
proof -
  have mk: "max_key LEVEL_RANGE (lookup (level_map g)) = Inr (first_max g LEVEL_RANGE)"
    by (rule max_key_Inr) (simp_all add: LEVEL_RANGE_nonempty)
  have m: "first_max g LEVEL_RANGE \<in> set LEVEL_RANGE"
    using first_max_LEVEL_RANGE [of g] by simp
  show ?thesis
    unfolding adjust_allocation_def
    by (simp add: sum_values_level mk m level_map_upd adjusted_def Let_def)
qed

lemma allocate_social_Inr:
  assumes "covers hr"
  shows "allocate_social t hr = Inr (level_map (allocation t hr))"
  unfolding allocate_social_def allocation_def
  by (simp add: initial_allocation_Inr [OF assms] adjust_allocation_Inr clamp_allocation_Inr)

subsection \<open>The whole year on a well-formed bundle\<close>

lemma leaving_total_Inr:
  assumes "covers employees" "covers rates"
  shows "leaving_total employees rates =
           Inr (level_sum (\<lambda>l. of_int (the (employees l)) * the (rates l)))"
  unfolding leaving_total_def
  by (rule sum_gen_level) (simp add: covers_lookup assms)

lemma leaving_total_age_Inr:
  assumes "covers employees" "covers rates" "covers ages"
  shows "leaving_total_age employees rates ages =
           Inr (level_sum (\<lambda>l. of_int (the (employees l)) * the (rates l) * the (ages l)))"
  unfolding leaving_total_age_def
  by (rule sum_gen_level) (simp add: covers_lookup assms)

lemma current_total_Inr:
  assumes "covers cce" "covers cse"
  shows "sum_gen LEVEL_RANGE (\<lambda>l.
           bind_err (lookup cce l) (\<lambda>c. bind_err (lookup cse l) (\<lambda>s. Inr (c + s))))
         = Inr (level_sum (\<lambda>l. the (cce l) + the (cse l)))"
  by (rule sum_gen_level) (simp add: covers_lookup assms)

lemma weighted_sum_Inr:
  "sum_gen LEVEL_RANGE (\<lambda>l. bind_err (lookup (level_map g) l) (\<lambda>n. Inr (l * n)))
     = Inr (level_sum (\<lambda>l. l * g l))"
  by (rule sum_gen_level) simp

lemma hire_age_Inr:
  assumes "covers ages"
  shows "sum_gen LEVEL_RANGE (\<lambda>l.
           bind_err (lookup (level_map C) l) (\<lambda>c.
           bind_err (lookup ages l) (\<lambda>a. Inr (of_int c * a))))
         = Inr (level_sum (\<lambda>l. of_int (C l) * the (ages l)))"
  by (rule sum_gen_level) (simp add: covers_lookup assms)

lemma sum_lookup_Inr: "sum_gen LEVEL_RANGE (lookup (level_map g)) = Inr (level_sum g)"
  by (rule sum_gen_level) simp

lemma scalars_closed:
  assumes "covers cce" "covers cse" "covers cla" "covers sla" "covers snha"
    "covers car" "covers sar"
  shows "scalars cce cse cca csa cla sla snha cnha car sar prev hires
           (level_map C) (level_map fin_campus) (level_map fin_structure) =
         bind_err (start_total_age cce cse cca csa prev) (\<lambda>start.
           Inr ((if level_sum fin_structure \<noteq> 0
                 then of_int (level_sum (\<lambda>l. l * fin_structure l))
                        / of_int (level_sum fin_structure) else 0),
                (if level_sum fin_structure \<noteq> 0
                 then total_age_n cce cse cla sla snha cnha car sar hires C start
                        / of_int (level_sum fin_structure) else 0),
                (if level_sum fin_structure > 0
                 then of_int (level_sum fin_campus) / of_int (level_sum fin_structure) else 0),
                total_age_n cce cse cla sla snha cnha car sar hires C start))"
  unfolding scalars_def total_age_n_def
  by (simp add: assms sum_values_level weighted_sum_Inr current_total_Inr
      leaving_total_Inr leaving_total_age_Inr hire_age_Inr sum_lookup_Inr
      guarded_div guarded_sum_div Let_def)

lemma predict_one_year_closed:
  assumes "well_formed cce cse cla sla snha cpr spr car sar hr"
  shows "predict_one_year cce cse cca csa cla sla snha cnha cpr spr car sar hr cr tt prev =
           bind_err (start_total_age cce cse cca csa prev) (\<lambda>start.
             Inr (one_year cce cse cla sla snha cnha cpr spr car sar hr cr tt start))"
proof -
  from assms have c: "covers cce" "covers cse" "covers cla" "covers sla" "covers snha"
    "covers cpr" "covers spr" "covers car" "covers sar" "covers hr"
    by (simp_all add: well_formed_def)
  show ?thesis
    unfolding predict_one_year_def one_year_def
    by (cases "start_total_age cce cse cca csa prev")
      (simp_all add: promotion_pass_Inr c attrition_pass_Inr dict_add_Inr sum_values_level
        allocate_social_Inr add_campus_hiring_Inr scalars_closed
        B_n_def campus_hiring_n_def social_needed_n_def Let_def)
qed

lemma start_total_age_carried [simp]:
  "start_total_age cce cse cca csa (Some t) = Inr t"
  by (simp add: start_total_age_def)

lemma start_total_age_missing:
  "cca = None \<or> csa = None \<Longrightarrow> start_total_age cce cse cca csa None = Inl ValueError"
  by (auto simp: start_total_age_def split: option.splits)

lemma start_total_age_seeded:
  assumes "covers cce" "covers cse" "covers a" "covers b"
  shows "start_total_age cce cse (Some a) (Some b) None =
           Inr (level_sum (\<lambda>l. of_int (the (cce l)) * the (a l) + of_int (the (cse l)) * the (b l)))"
  unfolding start_total_age_def
  by simp (rule sum_gen_level, simp add: covers_lookup assms)

lemma one_year_components:
  "final_campus_of (one_year cce cse cla sla snha cnha cpr spr car sar hr cr tt start) =
     level_map (\<lambda>l. B_n cce cpr car l + (if l = MIN_LEVEL then campus_hiring_n tt cr else 0))"
  "final_social_of (one_year cce cse cla sla snha cnha cpr spr car sar hr cr tt start) =
     level_map (\<lambda>l. B_n cse spr sar l
                      + allocation (social_needed_n cce cse cpr spr car sar cr tt) hr l)"
  "campus_hiring_of (one_year cce cse cla sla snha cnha cpr spr car sar hr cr tt start) =
     campus_hiring_n tt cr"
  "social_hiring_of (one_year cce cse cla sla snha cnha cpr spr car sar hr cr tt start) =
     level_map (allocation (social_needed_n cce cse cpr spr car sar cr tt) hr)"
  "total_age_of (one_year cce cse cla sla snha cnha cpr spr car sar hr cr tt start) =
     total_age_n cce cse cla sla snha cnha car sar (campus_hiring_n tt cr)
       (allocation (social_needed_n cce cse cpr spr car sar cr tt) hr) start"
  by (simp_all add: one_year_def Let_def final_campus_of_def final_social_of_def
      campus_hiring_of_def social_hiring_of_def total_age_of_def)

lemma predict_one_year_result:
  assumes "well_formed cce cse cla sla snha cpr spr car sar hr"
    and "predict_one_year cce cse cca csa cla sla snha cnha cpr spr car sar hr cr tt prev = Inr r"
  shows "\<exists>start. start_total_age cce cse cca csa prev = Inr start \<and>
           r = one_year cce cse cla sla snha cnha cpr spr car sar hr cr tt start"
  using assms(2) unfolding predict_one_year_closed [OF assms(1)] bind_err_eq_Inr by auto

subsection \<open>Rounding\<close>

lemma py_round_of_int [simp]: "py_round (of_int n) = n"
  by (simp add: py_round_def)

lemma py_round_upper: "of_int (py_round x) \<le> x + 1 / 2"
  unfolding py_round_def Let_def by (auto simp: not_less) linarith+

lemma py_round_lower: "x - 1 / 2 \<le> of_int (py_round x)"
  unfolding py_round_def Let_def by (auto simp: not_less) linarith+

lemma py_round_nonneg:
  assumes "- (1 / 2) \<le> x"
  shows "0 \<le> py_round x"
proof -
  have "(- 1 :: rat) < x" using assms by simp
  then have "- 1 \<le> \<lfloor>x\<rfloor>" by (simp add: le_floor_iff)
  then consider "0 \<le> \<lfloor>x\<rfloor>" | "\<lfloor>x\<rfloor> = - 1" by linarith
  then show ?thesis
  proof cases
    case 1
    then show ?thesis by (simp add: py_round_def Let_def)
  next
    case 2
    then show ?thesis using assms by (simp add: py_round_def Let_def)
  qed
qed

subsection \<open>Sums over the levels\<close>

lemma level_sum_cong:
  "(\<And>l. l \<in> set LEVEL_RANGE \<Longrightarrow> f l = g l) \<Longrightarrow> level_sum f = level_sum g"
  unfolding level_sum_def by (rule arg_cong [where f = sum_list]) (rule map_cong, simp_all)

lemma level_sum_the [simp]: "level_sum (\<lambda>l. the (level_map g l)) = level_sum g"
  by (rule level_sum_cong) simp





subsection \<open>Signs of the head counts\<close>

lemma promoted_n_nonneg:
  assumes "0 \<le> the (employees l)" "0 \<le> the (rates l)"
  shows "0 \<le> promoted_n employees rates l"
  unfolding promoted_n_def
proof (rule py_round_nonneg)
  have "(0::rat) \<le> of_int (the (employees l)) * the (rates l)"
    using assms by simp
  then show "- (1 / 2) \<le> rat_of_int (the (employees l)) * the (rates l)"
    by linarith
qed

lemma B_n_nonneg:
  assumes l: "l \<in> set LEVEL_RANGE"
    and h: "\<forall>k \<in> set LEVEL_RANGE. 0 \<le> the (employees k)"
    and p: "\<forall>k \<in> set LEVEL_RANGE. 0 \<le> the (prates k)"
    and pa: "the (prates l) + the (arates l) \<le> 1"
  shows "0 \<le> B_n employees prates arates l"
proof -
  define n where "n = the (employees l)"
  define out where "out = promoted_n employees prates l"
  define inn where "inn = (if l > MIN_LEVEL then promoted_n employees prates (l - 1) else 0)"
  have n0: "0 \<le> n" using h l by (simp add: n_def)
  have inn0: "0 \<le> inn"
    unfolding inn_def using pred_level [OF l] h p by (auto intro!: promoted_n_nonneg)
  have out_le: "of_int out \<le> of_int n * the (prates l) + 1 / 2"
    unfolding out_def promoted_n_def n_def by (rule py_round_upper)
  have "0 \<le> of_int n * (1 - the (prates l) - the (arates l))"
    using n0 pa by (intro mult_nonneg_nonneg) simp_all
  then have "of_int n * the (prates l) + of_int n * the (arates l) \<le> of_int n"
    by (simp add: algebra_simps)
  then have "- (1 / 2) \<le> of_int (n - out + inn) - of_int n * the (arates l)"
    using out_le inn0 by simp
  then have "0 \<le> py_round (of_int (n - out + inn) - of_int n * the (arates l))"
    by (rule py_round_nonneg)
  then show ?thesis
    by (simp add: B_n_def post_attrition_def post_promotion_def n_def out_def inn_def)
qed

lemma allocation_nonneg: "0 \<le> allocation t hr l"
  by (simp add: allocation_def)

lemma finals_nonneg:
  assumes "well_formed cce cse cla sla snha cpr spr car sar hr"
    and "\<forall>k \<in> set LEVEL_RANGE. 0 \<le> the (cce k) \<and> 0 \<le> the (cse k)"
    and "\<forall>k \<in> set LEVEL_RANGE. 0 \<le> the (cpr k) \<and> the (cpr k) + the (car k) \<le> 1"
    and "\<forall>k \<in> set LEVEL_RANGE. 0 \<le> the (spr k) \<and> the (spr k) + the (sar k) \<le> 1"
    and "0 \<le> tt" and "0 \<le> cr"
    and "predict_one_year cce cse cca csa cla sla snha cnha cpr spr car sar hr cr tt prev = Inr r"
    and "L \<in> set LEVEL_RANGE"
  shows "\<exists>c s. final_campus_of r L = Some c \<and> final_social_of r L = Some s \<and> 0 \<le> c \<and> 0 \<le> s"
proof -
  from predict_one_year_result [OF assms(1) assms(7)]
  obtain start where r: "r = one_year cce cse cla sla snha cnha cpr spr car sar hr cr tt start"
    by blast
  have bc: "0 \<le> B_n cce cpr car L"
    using assms(2,3,8) by (intro B_n_nonneg) auto
  have bs: "0 \<le> B_n cse spr sar L"
    using assms(2,4,8) by (intro B_n_nonneg) auto
  have "(0::rat) \<le> of_int tt * cr"
    using assms(5,6) by simp
  then have "- (1 / 2) \<le> of_int tt * cr" by linarith
  then have ch: "0 \<le> campus_hiring_n tt cr"
    unfolding campus_hiring_n_def by (rule py_round_nonneg)
  show ?thesis
    using bc bs ch allocation_nonneg [of "social_needed_n cce cse cpr spr car sar cr tt" hr L]
      assms(8)
    by (simp add: r one_year_components)
qed

subsection \<open>The outcome of a call\<close>

lemma predict_one_year_outcome:
  assumes "well_formed cce cse cla sla snha cpr spr car sar hr"
    and "ages_ok cca" and "ages_ok csa"
  shows "if prev = None \<and> (cca = None \<or> csa = None)
         then predict_one_year cce cse cca csa cla sla snha cnha cpr spr car sar hr cr tt prev
                = Inl ValueError
         else (\<exists>start. start_total_age cce cse cca csa prev = Inr start \<and>
                 predict_one_year cce cse cca csa cla sla snha cnha cpr spr car sar hr cr tt prev
                   = Inr (one_year cce cse cla sla snha cnha cpr spr car sar hr cr tt start))"
proof -
  from assms(1) have c: "covers cce" "covers cse"
    by (simp_all add: well_formed_def)
  note closed = predict_one_year_closed [OF assms(1), of cca csa cnha cr tt prev]
  show ?thesis
  proof (cases "prev = None \<and> (cca = None \<or> csa = None)")
    case True
    then show ?thesis
      unfolding closed by (auto simp: start_total_age_missing)
  next
    case False
    have "\<exists>start. start_total_age cce cse cca csa prev = Inr start"
    proof (cases prev)
      case (Some t)
      then show ?thesis by simp
    next
      case None
      then obtain a b where ab: "cca = Some a" "csa = Some b" using False by auto
      then have "covers a" "covers b" using assms(2,3) by (simp_all add: ages_ok_def)
      from start_total_age_seeded [OF c this] show ?thesis
        using None ab by simp
    qed
    then obtain start where s: "start_total_age cce cse cca csa prev = Inr start" ..
    then have "predict_one_year cce cse cca csa cla sla snha cnha cpr spr car sar hr cr tt prev
        = Inr (one_year cce cse cla sla snha cnha cpr spr car sar hr cr tt start)"
      by (simp add: closed)
    with s False show ?thesis by auto
  qed
qed

lemma predict_one_year_succeeds:
  assumes "well_formed cce cse cla sla snha cpr spr car sar hr"
    and "ages_ok cca" and "ages_ok csa"
    and "\<not> (prev = None \<and> (cca = None \<or> csa = None))"
  shows "\<exists>r. predict_one_year cce cse cca csa cla sla snha cnha cpr spr car sar hr cr tt prev
           = Inr r"
  using predict_one_year_outcome [OF assms(1-3), of prev cnha cr tt] assms(4) by metis

lemma start_total_age_value:
  assumes "covers cce" "covers cse" "ages_ok cca" "ages_ok csa"
    and "start_total_age cce cse cca csa prev = Inr start"
  shows "start = (case prev of
                    Some carried \<Rightarrow> carried
                  | None \<Rightarrow> level_sum (\<lambda>l. of_int (the (cce l)) * the (the cca l)
                                             + of_int (the (cse l)) * the (the csa l)))"
proof (cases prev)
  case (Some t)
  then show ?thesis using assms(5) by simp
next
  case None
  show ?thesis
  proof (cases "cca = None \<or> csa = None")
    case True
    then show ?thesis using assms(5) None by (simp add: start_total_age_missing)
  next
    case False
    then obtain a b where ab: "cca = Some a" "csa = Some b" by auto
    then have "covers a" "covers b" using assms(3,4) by (simp_all add: ages_ok_def)
    from start_total_age_seeded [OF assms(1,2) this] show ?thesis
      using assms(5) None ab by simp
  qed
qed

subsection \<open>The loop over the years\<close>

lemma record_result_make_record [simp]: "record_result (make_record n c s r) = r"
  by (simp add: record_result_def make_record_def final_campus_of_def final_social_of_def
      final_structure_of_def average_level_of_def average_age_of_def campus_ratio_of_def
      campus_hiring_of_def social_hiring_of_def total_age_of_def)

lemma make_record_fields [simp]:
  "year (make_record n c s r) = n"
  "current_campus (make_record n c s r) = c"
  "current_social (make_record n c s r) = s"
  "final_campus (make_record n c s r) = final_campus_of r"
  "final_social (make_record n c s r) = final_social_of r"
  "total_age (make_record n c s r) = total_age_of r"
  by (simp_all add: make_record_def)

lemma year_step_Inr:
  assumes "predict_one_year c s
          (if y = 0 then Some (current_campus_ages p) else None)
          (if y = 0 then Some (current_social_ages p) else None)
          (campus_leaving_ages p) (social_leaving_ages p) (social_new_hire_ages p)
          (campus_new_hire_age p) (campus_promotion_rates p) (social_promotion_rates p)
          (campus_attrition_rates p) (social_attrition_rates p) (hiring_ratios p)
          (campus_ratio p) (target_total p) (if y > 0 then prev else None) = Inr r"
  shows "year_step p (c, s, prev, rs) y =
           Inr (final_campus_of r, final_social_of r, Some (total_age_of r),
                rs @ [make_record (y + 1) c s r])"
proof -
  obtain a1 a2 a3 a4 a5 a6 a7 a8 a9 where r: "r = (a1, a2, a3, a4, a5, a6, a7, a8, a9)"
    by (cases r) auto
  show ?thesis
    unfolding year_step_def
    by (simp add: assms r make_record_def final_campus_of_def final_social_of_def
      final_structure_of_def average_level_of_def average_age_of_def campus_ratio_of_def
      campus_hiring_of_def social_hiring_of_def total_age_of_def)
qed

lemma py_range_nat: "py_range (int n) = map int [0..<n]"
proof (induction n)
  case 0
  then show ?case by (simp add: py_range_def)
next
  case (Suc n)
  have "[0..int (Suc n) - 1] = [0..int n - 1] @ [int n]"
    using upto_rec2 [of 0 "int n"] by simp
  then show ?case using Suc by (simp add: py_range_def)
qed

lemma covers_finals:
  "covers (final_campus_of (one_year cce cse cla sla snha cnha cpr spr car sar hr cr tt start))"
  "covers (final_social_of (one_year cce cse cla sla snha cnha cpr spr car sar hr cr tt start))"
  by (simp_all add: one_year_components)

lemma well_formed_swap:
  "well_formed cce cse cla sla snha cpr spr car sar hr \<Longrightarrow> covers c \<Longrightarrow> covers s \<Longrightarrow>
   well_formed c s cla sla snha cpr spr car sar hr"
  by (simp add: well_formed_def)

lemma predict_one_year_covers:
  assumes "well_formed cce cse cla sla snha cpr spr car sar hr"
    and "predict_one_year cce cse cca csa cla sla snha cnha cpr spr car sar hr cr tt prev = Inr r"
  shows "covers (final_campus_of r)" "covers (final_social_of r)"
  using predict_one_year_result [OF assms] covers_finals by auto

lemma first_year_succeeds:
  assumes "params_ok p"
  shows "\<exists>r. first_year p = Inr r"
proof -
  from assms have wf: "well_formed (current_campus_employees p) (current_social_employees p)
       (campus_leaving_ages p) (social_leaving_ages p) (social_new_hire_ages p)
       (campus_promotion_rates p) (social_promotion_rates p)
       (campus_attrition_rates p) (social_attrition_rates p) (hiring_ratios p)"
    and a: "ages_ok (Some (current_campus_ages p))" "ages_ok (Some (current_social_ages p))"
    by (simp_all add: params_ok_def ages_ok_def)
  show ?thesis
    unfolding first_year_def by (rule predict_one_year_succeeds [OF wf a]) simp
qed

lemma next_year_succeeds:
  assumes "params_ok p" "covers (final_campus rec)" "covers (final_social rec)"
  shows "\<exists>r. next_year p rec = Inr r"
proof -
  from assms have wf: "well_formed (final_campus rec) (final_social rec)
       (campus_leaving_ages p) (social_leaving_ages p) (social_new_hire_ages p)
       (campus_promotion_rates p) (social_promotion_rates p)
       (campus_attrition_rates p) (social_attrition_rates p) (hiring_ratios p)"
    by (simp add: params_ok_def well_formed_def)
  have a: "ages_ok None" by (simp add: ages_ok_def)
  show ?thesis
    unfolding next_year_def by (rule predict_one_year_succeeds [OF wf a a]) simp
qed

lemma loop_step:
  assumes ok: "params_ok p" and inv: "loop_inv p n st"
  shows "\<exists>st'. year_step p st (int n) = Inr st' \<and> loop_inv p (Suc n) st'"
proof -
  obtain c s prev rs where st: "st = (c, s, prev, rs)" by (cases st) auto
  from inv have len: "length rs = n" and ch: "chained p rs"
    by (simp_all add: loop_inv_def st)
  have wfp: "well_formed (current_campus_employees p) (current_social_employees p)
       (campus_leaving_ages p) (social_leaving_ages p) (social_new_hire_ages p)
       (campus_promotion_rates p) (social_promotion_rates p)
       (campus_attrition_rates p) (social_attrition_rates p) (hiring_ratios p)"
    using ok by (simp add: params_ok_def)
  show ?thesis
  proof (cases n)
    case 0
    then have rs: "rs = []" using len by simp
    from inv 0 have cs: "c = current_campus_employees p" "s = current_social_employees p"
      by (simp_all add: loop_inv_def st)
    from first_year_succeeds [OF ok] obtain r where r: "first_year p = Inr r" ..
    have step: "year_step p st (int n) =
        Inr (final_campus_of r, final_social_of r, Some (total_age_of r),
             [make_record 1 c s r])"
      unfolding st using year_step_Inr [of c s 0 p prev r rs] r
      by (simp add: first_year_def cs 0 rs)
    have cov: "covers (final_campus_of r)" "covers (final_social_of r)"
      using predict_one_year_covers [OF wfp r [unfolded first_year_def]] by simp_all
    have "loop_inv p (Suc n) (final_campus_of r, final_social_of r, Some (total_age_of r),
             [make_record 1 c s r])"
      by (simp add: loop_inv_def chained_def r cs cov 0)
    with step show ?thesis by blast
  next
    case (Suc m)
    then have ne: "rs \<noteq> []" using len by auto
    from inv Suc have cs: "c = final_campus (last rs)" "s = final_social (last rs)"
      "prev = Some (total_age (last rs))"
      by (simp_all add: loop_inv_def st)
    have lastm: "last rs = rs ! m"
      using len Suc ne by (simp add: last_conv_nth)
    have covl: "covers (final_campus (last rs))" "covers (final_social (last rs))"
      using ch len Suc unfolding chained_def lastm by auto
    from next_year_succeeds [OF ok covl] obtain r where r: "next_year p (last rs) = Inr r" ..
    have step: "year_step p st (int n) =
        Inr (final_campus_of r, final_social_of r, Some (total_age_of r),
             rs @ [make_record (int n + 1) c s r])"
      unfolding st using year_step_Inr [of c s "int n" p prev r rs] r
      by (simp add: next_year_def cs Suc)
    have wfl: "well_formed (final_campus (last rs)) (final_social (last rs))
       (campus_leaving_ages p) (social_leaving_ages p) (social_new_hire_ages p)
       (campus_promotion_rates p) (social_promotion_rates p)
       (campus_attrition_rates p) (social_attrition_rates p) (hiring_ratios p)"
      using wfp covl by (rule well_formed_swap)
    have cov: "covers (final_campus_of r)" "covers (final_social_of r)"
      using predict_one_year_covers [OF wfl r [unfolded next_year_def]] by simp_all
    let ?rs = "rs @ [make_record (int n + 1) c s r]"
    have nth_old: "?rs ! i = rs ! i" if "i < n" for i
      using that len by (simp add: nth_append)
    have nth_new: "?rs ! n = make_record (int n + 1) c s r"
      using len by (simp add: nth_append)
    have c1: "\<forall>i < length ?rs. year (?rs ! i) = int i + 1 \<and>
        covers (final_campus (?rs ! i)) \<and> covers (final_social (?rs ! i))"
    proof (intro allI impI)
      fix i assume "i < length ?rs"
      then consider "i < n" | "i = n" using len by force
      then show "year (?rs ! i) = int i + 1 \<and>
        covers (final_campus (?rs ! i)) \<and> covers (final_social (?rs ! i))"
      proof cases
        case 1
        then show ?thesis using ch len by (simp add: nth_old chained_def)
      next
        case 2
        then show ?thesis by (simp add: nth_new cov)
      qed
    qed
    have c2: "first_year p = Inr (record_result (?rs ! 0)) \<and>
        current_campus (?rs ! 0) = current_campus_employees p \<and>
        current_social (?rs ! 0) = current_social_employees p"
    proof -
      have "0 < n" using Suc by simp
      from nth_old [OF this] show ?thesis
        using ch ne by (simp add: chained_def)
    qed
    have c3: "\<forall>i. Suc i < length ?rs \<longrightarrow>
        next_year p (?rs ! i) = Inr (record_result (?rs ! Suc i)) \<and>
        current_campus (?rs ! Suc i) = final_campus (?rs ! i) \<and>
        current_social (?rs ! Suc i) = final_social (?rs ! i)"
    proof (intro allI impI)
      fix i assume "Suc i < length ?rs"
      then consider "Suc i < n" | "Suc i = n" using len by force
      then show "next_year p (?rs ! i) = Inr (record_result (?rs ! Suc i)) \<and>
        current_campus (?rs ! Suc i) = final_campus (?rs ! i) \<and>
        current_social (?rs ! Suc i) = final_social (?rs ! i)"
      proof cases
        case 1
        then show ?thesis using ch len by (simp add: nth_old chained_def)
      next
        case 2
        then have i: "i = m" "i < n" using Suc by simp_all
        show ?thesis
          unfolding 2 nth_new nth_old [OF i(2)]
          using r by (simp add: i(1) lastm [symmetric] cs)
      qed
    qed
    have "loop_inv p (Suc n) (final_campus_of r, final_social_of r, Some (total_age_of r), ?rs)"
      unfolding loop_inv_def chained_def using c1 c2 c3 len by simp
    with step show ?thesis by blast
  qed
qed

lemma loop_runs:
  assumes "params_ok p"
  shows "\<exists>st. for_each (year_step p) (map int [0..<n])
                 (current_campus_employees p, current_social_employees p, None, []) = Inr st \<and>
              loop_inv p n st"
proof (induction n)
  case 0
  show ?case by (simp add: loop_inv_def chained_def)
next
  case (Suc n)
  then obtain st where st: "for_each (year_step p) (map int [0..<n])
                 (current_campus_employees p, current_social_employees p, None, []) = Inr st"
    and inv: "loop_inv p n st" by blast
  from loop_step [OF assms inv] obtain st' where
    st': "year_step p st (int n) = Inr st'" and inv': "loop_inv p (Suc n) st'" by blast
  have "for_each (year_step p) (map int [0..<Suc n])
          (current_campus_employees p, current_social_employees p, None, []) = Inr st'"
    by (simp add: for_each_append st st')
  with inv' show ?case by blast
qed

subsection \<open>The concrete bundles\<close>

lemma covers_level_dict: "length vs = 7 \<Longrightarrow> covers (level_dict vs)"
proof -
  assume "length vs = 7"
  then obtain a b c d e f g where "vs = [a, b, c, d, e, f, g]"
    by (auto simp: length_Suc_conv eval_nat_numeral)
  then show ?thesis
    by (simp add: covers_def level_dict_def LEVEL_RANGE_eq)
qed

lemma covers_concrete [simp]:
  "covers (constant_dict v)" "covers scenario_employees" "covers scenario_hiring_ratios"
  "covers shrinking_employees" "covers top_employees" "covers thirds"
  by (simp_all add: covers_level_dict constant_dict_def scenario_employees_def
      scenario_hiring_ratios_def shrinking_employees_def top_employees_def thirds_def)

lemma scenario_params_ok: "params_ok scenario_params"
  by (simp add: params_ok_def well_formed_def scenario_params_def)

section \<open>The claims\<close>

subsection \<open>C1: signs of the final head counts\<close>




text \<open>
  The same holds in every year of \<open>predict_multiple_years\<close>, since each year starts from
  the final head counts of the year before.
\<close>

lemma record_result_finals [simp]:
  "final_campus_of (record_result rec) = final_campus rec"
  "final_social_of (record_result rec) = final_social rec"
  by (simp_all add: record_result_def final_campus_of_def final_social_of_def)

lemma chained_finals_nonneg:
  assumes ok: "params_ok p"
    and h: "\<forall>k \<in> set LEVEL_RANGE. 0 \<le> the (current_campus_employees p k)
               \<and> 0 \<le> the (current_social_employees p k)"
    and pc: "\<forall>k \<in> set LEVEL_RANGE. 0 \<le> the (campus_promotion_rates p k)
               \<and> the (campus_promotion_rates p k) + the (campus_attrition_rates p k) \<le> 1"
    and ps: "\<forall>k \<in> set LEVEL_RANGE. 0 \<le> the (social_promotion_rates p k)
               \<and> the (social_promotion_rates p k) + the (social_attrition_rates p k) \<le> 1"
    and tt: "0 \<le> target_total p" and cr: "0 \<le> campus_ratio p"
    and ch: "chained p rs"
  shows "i < length rs \<Longrightarrow>
         \<forall>k \<in> set LEVEL_RANGE. 0 \<le> the (final_campus (rs ! i) k) \<and> 0 \<le> the (final_social (rs ! i) k)"
proof (induction i)
  case 0
  then have ne: "rs \<noteq> []" by auto
  from ok have wf: "well_formed (current_campus_employees p) (current_social_employees p)
       (campus_leaving_ages p) (social_leaving_ages p) (social_new_hire_ages p)
       (campus_promotion_rates p) (social_promotion_rates p)
       (campus_attrition_rates p) (social_attrition_rates p) (hiring_ratios p)"
    by (simp add: params_ok_def)
  from ch ne have run: "first_year p = Inr (record_result (rs ! 0))"
    by (simp add: chained_def)
  show ?case
  proof
    fix k assume k: "k \<in> set LEVEL_RANGE"
    from finals_nonneg [OF wf h pc ps tt cr run [unfolded first_year_def] k]
    show "0 \<le> the (final_campus (rs ! 0) k) \<and> 0 \<le> the (final_social (rs ! 0) k)"
      by auto
  qed
next
  case (Suc i)
  then have i: "i < length rs" by simp
  from Suc.IH [OF i]
  have prev: "\<forall>k \<in> set LEVEL_RANGE. 0 \<le> the (final_campus (rs ! i) k)
      \<and> 0 \<le> the (final_social (rs ! i) k)" .
  from ch i have cov: "covers (final_campus (rs ! i))" "covers (final_social (rs ! i))"
    by (simp_all add: chained_def)
  from ok cov have wf: "well_formed (final_campus (rs ! i)) (final_social (rs ! i))
       (campus_leaving_ages p) (social_leaving_ages p) (social_new_hire_ages p)
       (campus_promotion_rates p) (social_promotion_rates p)
       (campus_attrition_rates p) (social_attrition_rates p) (hiring_ratios p)"
    by (simp add: params_ok_def well_formed_def)
  from ch Suc.prems have run: "next_year p (rs ! i) = Inr (record_result (rs ! Suc i))"
    by (simp add: chained_def)
  show ?case
  proof
    fix k assume k: "k \<in> set LEVEL_RANGE"
    from finals_nonneg [OF wf prev pc ps tt cr run [unfolded next_year_def] k]
    show "0 \<le> the (final_campus (rs ! Suc i) k) \<and> 0 \<le> the (final_social (rs ! Suc i) k)"
      by auto
  qed
qed

lemma all_years_finals_nonneg:
  assumes ok: "params_ok p"
    and h: "\<forall>k \<in> set LEVEL_RANGE. 0 \<le> the (current_campus_employees p k)
               \<and> 0 \<le> the (current_social_employees p k)"
    and pc: "\<forall>k \<in> set LEVEL_RANGE. 0 \<le> the (campus_promotion_rates p k)
               \<and> the (campus_promotion_rates p k) + the (campus_attrition_rates p k) \<le> 1"
    and ps: "\<forall>k \<in> set LEVEL_RANGE. 0 \<le> the (social_promotion_rates p k)
               \<and> the (social_promotion_rates p k) + the (social_attrition_rates p k) \<le> 1"
    and tt: "0 \<le> target_total p" and cr: "0 \<le> campus_ratio p"
    and N: "0 \<le> N"
  shows "\<exists>rs. predict_multiple_years p N = Inr rs \<and>
           (\<forall>i < length rs. \<forall>k \<in> set LEVEL_RANGE.
              0 \<le> the (final_campus (rs ! i) k) \<and> 0 \<le> the (final_social (rs ! i) k))"
proof -
  from loop_runs [OF ok, of "nat N"] obtain st where
    st: "for_each (year_step p) (map int [0..<nat N])
           (current_campus_employees p, current_social_employees p, None, []) = Inr st"
    and inv: "loop_inv p (nat N) st" by blast
  obtain c s prev rs where t: "st = (c, s, prev, rs)" by (cases st) auto
  have range: "py_range N = map int [0..<nat N]"
    using py_range_nat [of "nat N"] N by simp
  have run: "predict_multiple_years p N = Inr rs"
    by (simp add: predict_multiple_years_def range st t)
  from inv have ch: "chained p rs"
    by (simp add: loop_inv_def t)
  from chained_finals_nonneg [OF ok h pc ps tt cr ch] run
  show ?thesis by blast
qed

subsection \<open>C2: the concrete scenario\<close>

text \<open>
  Claim C2. On the scenario (100 campus and 100 social employees at level 1, promotion
  rates 0, attrition rates 0.1, all social hires allocated to level 1, campus ratio 0.5,
  target 200, all ages 30) the steps of lines 79 to 115 give \<open>B_campus[1] = 90\<close>,
  \<open>B_social[1] = 90\<close>, \<open>campus_hiring = 100\<close> and a social hiring total of \<open>-80\<close>; the
  allocation of \<open>-80\<close> is \<open>-80\<close> at level 1 before the clamp and 0 after it; and
  \<open>predict_one_year\<close> returns \<open>final_campus[1] = 190\<close>, \<open>final_social[1] = 90\<close> and
  \<open>final_structure[1] = 280\<close>.
\<close>

theorem scenario_one_year:
  "bind_err (promotion_pass scenario_employees scenario_employees
               (constant_dict 0) (constant_dict 0)) (\<lambda>A.
   bind_err (attrition_pass (fst A) scenario_employees (constant_dict (1 / 10))) (\<lambda>B_campus.
   bind_err (attrition_pass (snd A) scenario_employees (constant_dict (1 / 10))) (\<lambda>B_social.
   bind_err (dict_add B_campus B_social) (\<lambda>B.
   bind_err (sum_values B) (\<lambda>total_B.
   Inr (B_campus 1, B_social 1, py_round (of_int 200 * (1 / 2)),
        200 - total_B - py_round (of_int 200 * (1 / 2))))))))
     = Inr (Some 90, Some 90, 100, - 80)
   \<and> bind_err (initial_allocation (- 80) scenario_hiring_ratios) (\<lambda>initial_C. Inr (initial_C 1))
     = Inr (Some (- 80))
   \<and> bind_err (allocate_social (- 80) scenario_hiring_ratios) (\<lambda>C. Inr (C 1)) = Inr (Some 0)
   \<and> observe (predict_one_year scenario_employees scenario_employees
        (Some (constant_dict 30)) (Some (constant_dict 30))
        (constant_dict 30) (constant_dict 30) (constant_dict 30) 30
        (constant_dict 0) (constant_dict 0) (constant_dict (1 / 10)) (constant_dict (1 / 10))
        scenario_hiring_ratios (1 / 2) 200 None)
     = Inr ([Some 190, Some 0, Some 0, Some 0, Some 0, Some 0, Some 0],
            [Some 90, Some 0, Some 0, Some 0, Some 0, Some 0, Some 0],
            [Some 280, Some 0, Some 0, Some 0, Some 0, Some 0, Some 0],
            1, 429 / 14, 19 / 28, 100,
            [Some 0, Some 0, Some 0, Some 0, Some 0, Some 0, Some 0], 8580)"
proof (intro conjI)
  show "bind_err (promotion_pass scenario_employees scenario_employees
               (constant_dict 0) (constant_dict 0)) (\<lambda>A.
   bind_err (attrition_pass (fst A) scenario_employees (constant_dict (1 / 10))) (\<lambda>B_campus.
   bind_err (attrition_pass (snd A) scenario_employees (constant_dict (1 / 10))) (\<lambda>B_social.
   bind_err (dict_add B_campus B_social) (\<lambda>B.
   bind_err (sum_values B) (\<lambda>total_B.
   Inr (B_campus 1, B_social 1, py_round (of_int 200 * (1 / 2)),
        200 - total_B - py_round (of_int 200 * (1 / 2))))))))
     = Inr (Some 90, Some 90, 100, - 80)"
    by code_simp
  show "bind_err (initial_allocation (- 80) scenario_hiring_ratios) (\<lambda>initial_C. Inr (initial_C 1))
     = Inr (Some (- 80))"
    by code_simp
  show "bind_err (allocate_social (- 80) scenario_hiring_ratios) (\<lambda>C. Inr (C 1)) = Inr (Some 0)"
    by code_simp
  show "observe (predict_one_year scenario_employees scenario_employees
        (Some (constant_dict 30)) (Some (constant_dict 30))
        (constant_dict 30) (constant_dict 30) (constant_dict 30) 30
        (constant_dict 0) (constant_dict 0) (constant_dict (1 / 10)) (constant_dict (1 / 10))
        scenario_hiring_ratios (1 / 2) 200 None)
     = Inr ([Some 190, Some 0, Some 0, Some 0, Some 0, Some 0, Some 0],
            [Some 90, Some 0, Some 0, Some 0, Some 0, Some 0, Some 0],
            [Some 280, Some 0, Some 0, Some 0, Some 0, Some 0, Some 0],
            1, 429 / 14, 19 / 28, 100,
            [Some 0, Some 0, Some 0, Some 0, Some 0, Some 0, Some 0], 8580)"
    by code_simp
qed

subsection \<open>C3: the allocation of the social hires\<close>

text \<open>
  The allocation that \<open>predict_one_year\<close> returns is \<open>allocate_social\<close> applied to the
  social hiring total.
\<close>

lemma predict_one_year_allocates:
  assumes "well_formed cce cse cla sla snha cpr spr car sar hr"
    and "predict_one_year cce cse cca csa cla sla snha cnha cpr spr car sar hr cr tt prev = Inr r"
  shows "allocate_social (social_needed_n cce cse cpr spr car sar cr tt) hr
           = Inr (social_hiring_of r)"
proof -
  from assms(1) have "covers hr" by (simp add: well_formed_def)
  then show ?thesis
    using predict_one_year_result [OF assms]
    by (auto simp: allocate_social_Inr one_year_components)
qed



subsection \<open>C4: promotion at the top level\<close>




subsection \<open>C5: the attrition pass\<close>



subsection \<open>C6: the age-mass\<close>

text \<open>
  Claim C6. The age-mass returned is the starting age-mass (the carried scalar when one
  is supplied, and otherwise the sum over the levels of head count times age in both
  channels), minus the age-mass of those who leave (head count times attrition rate
  times leaving age, over both channels and all levels), plus one year for each survivor
  (the starting total minus the attrition count), plus the campus hires times their
  age, plus the social hires of each level times their age. The average age returned is
  this age-mass divided by the predicted total, or 0 when that total is 0.
\<close>

theorem age_mass_evolution:
  assumes "well_formed cce cse cla sla snha cpr spr car sar hr"
    and "ages_ok cca" and "ages_ok csa"
    and "predict_one_year cce cse cca csa cla sla snha cnha cpr spr car sar hr cr tt prev = Inr r"
  shows "\<exists>start.
      start_total_age cce cse cca csa prev = Inr start \<and>
      start = (case prev of
                 Some carried \<Rightarrow> carried
               | None \<Rightarrow> level_sum (\<lambda>l. of_int (the (cce l)) * the (the cca l)
                                          + of_int (the (cse l)) * the (the csa l))) \<and>
      total_age_of r =
        start
        - (level_sum (\<lambda>l. of_int (the (cce l)) * the (car l) * the (cla l))
           + level_sum (\<lambda>l. of_int (the (cse l)) * the (sar l) * the (sla l)))
        + (of_int (level_sum (\<lambda>l. the (cce l) + the (cse l)))
           - (level_sum (\<lambda>l. of_int (the (cce l)) * the (car l))
              + level_sum (\<lambda>l. of_int (the (cse l)) * the (sar l)))) * 1
        + of_int (campus_hiring_of r) * cnha
        + level_sum (\<lambda>l. of_int (the (social_hiring_of r l)) * the (snha l)) \<and>
      average_age_of r =
        (if level_sum (\<lambda>l. the (final_structure_of r l)) = 0 then 0
         else total_age_of r / of_int (level_sum (\<lambda>l. the (final_structure_of r l))))"
proof -
  from assms(1) have c: "covers cce" "covers cse"
    by (simp_all add: well_formed_def)
  from predict_one_year_result [OF assms(1) assms(4)]
  obtain start where s: "start_total_age cce cse cca csa prev = Inr start"
    and r: "r = one_year cce cse cla sla snha cnha cpr spr car sar hr cr tt start"
    by blast
  note st = start_total_age_value [OF c assms(2,3) s]
  have hs: "level_sum (\<lambda>l. of_int (the (social_hiring_of r l)) * the (snha l))
      = level_sum (\<lambda>l. of_int (allocation (social_needed_n cce cse cpr spr car sar cr tt) hr l)
                         * the (snha l))"
    by (rule level_sum_cong) (simp add: r one_year_components)
  have ta: "total_age_of r =
        start
        - (level_sum (\<lambda>l. of_int (the (cce l)) * the (car l) * the (cla l))
           + level_sum (\<lambda>l. of_int (the (cse l)) * the (sar l) * the (sla l)))
        + (of_int (level_sum (\<lambda>l. the (cce l) + the (cse l)))
           - (level_sum (\<lambda>l. of_int (the (cce l)) * the (car l))
              + level_sum (\<lambda>l. of_int (the (cse l)) * the (sar l)))) * 1
        + of_int (campus_hiring_of r) * cnha
        + level_sum (\<lambda>l. of_int (the (social_hiring_of r l)) * the (snha l))"
    unfolding hs by (simp add: r one_year_components total_age_n_def)
  have aa: "average_age_of r =
        (if level_sum (\<lambda>l. the (final_structure_of r l)) = 0 then 0
         else total_age_of r / of_int (level_sum (\<lambda>l. the (final_structure_of r l))))"
    by (simp add: r one_year_def Let_def average_age_of_def final_structure_of_def
        total_age_of_def)
  show ?thesis
    using s st ta aa by blast
qed

theorem age_mass_evolution_witness:
  "observe (predict_one_year scenario_employees scenario_employees
     (Some (constant_dict 30)) (Some (constant_dict 30))
     (constant_dict 30) (constant_dict 30) (constant_dict 30) 30
     (constant_dict 0) (constant_dict 0) (constant_dict (1 / 10)) (constant_dict (1 / 10))
     scenario_hiring_ratios (1 / 2) 200 None)
     = Inr ([Some 190, Some 0, Some 0, Some 0, Some 0, Some 0, Some 0],
            [Some 90, Some 0, Some 0, Some 0, Some 0, Some 0, Some 0],
            [Some 280, Some 0, Some 0, Some 0, Some 0, Some 0, Some 0],
            1, 429 / 14, 19 / 28, 100,
            [Some 0, Some 0, Some 0, Some 0, Some 0, Some 0, Some 0], 8580)
   \<and> (\<exists>r start. predict_one_year scenario_employees scenario_employees
     (Some (constant_dict 30)) (Some (constant_dict 30))
     (constant_dict 30) (constant_dict 30) (constant_dict 30) 30
     (constant_dict 0) (constant_dict 0) (constant_dict (1 / 10)) (constant_dict (1 / 10))
     scenario_hiring_ratios (1 / 2) 200 None = Inr r
        \<and> start_total_age scenario_employees scenario_employees
             (Some (constant_dict 30)) (Some (constant_dict 30)) None = Inr start
        \<and> average_age_of r =
             (if level_sum (\<lambda>l. the (final_structure_of r l)) = 0 then 0
              else total_age_of r / of_int (level_sum (\<lambda>l. the (final_structure_of r l)))))"
proof (intro conjI)
  show "observe (predict_one_year scenario_employees scenario_employees
     (Some (constant_dict 30)) (Some (constant_dict 30))
     (constant_dict 30) (constant_dict 30) (constant_dict 30) 30
     (constant_dict 0) (constant_dict 0) (constant_dict (1 / 10)) (constant_dict (1 / 10))
     scenario_hiring_ratios (1 / 2) 200 None)
     = Inr ([Some 190, Some 0, Some 0, Some 0, Some 0, Some 0, Some 0],
            [Some 90, Some 0, Some 0, Some 0, Some 0, Some 0, Some 0],
            [Some 280, Some 0, Some 0, Some 0, Some 0, Some 0, Some 0],
            1, 429 / 14, 19 / 28, 100,
            [Some 0, Some 0, Some 0, Some 0, Some 0, Some 0, Some 0], 8580)"
    by code_simp
  have wf: "well_formed scenario_employees scenario_employees
      (constant_dict 30) (constant_dict 30) (constant_dict 30)
      (constant_dict 0) (constant_dict 0) (constant_dict (1 / 10)) (constant_dict (1 / 10))
      scenario_hiring_ratios"
    by (simp add: well_formed_def)
  have a: "ages_ok (Some (constant_dict 30))"
    by (simp add: ages_ok_def)
  from predict_one_year_succeeds [OF wf a a, of None 30 "1 / 2" 200]
  obtain r where r: "predict_one_year scenario_employees scenario_employees
     (Some (constant_dict 30)) (Some (constant_dict 30))
     (constant_dict 30) (constant_dict 30) (constant_dict 30) 30
     (constant_dict 0) (constant_dict 0) (constant_dict (1 / 10)) (constant_dict (1 / 10))
     scenario_hiring_ratios (1 / 2) 200 None = Inr r"
    by auto
  from age_mass_evolution [OF wf a a r] r
  show "\<exists>r start. predict_one_year scenario_employees scenario_employees
     (Some (constant_dict 30)) (Some (constant_dict 30))
     (constant_dict 30) (constant_dict 30) (constant_dict 30) 30
     (constant_dict 0) (constant_dict 0) (constant_dict (1 / 10)) (constant_dict (1 / 10))
     scenario_hiring_ratios (1 / 2) 200 None = Inr r
        \<and> start_total_age scenario_employees scenario_employees
             (Some (constant_dict 30)) (Some (constant_dict 30)) None = Inr start
        \<and> average_age_of r =
             (if level_sum (\<lambda>l. the (final_structure_of r l)) = 0 then 0
              else total_age_of r / of_int (level_sum (\<lambda>l. the (final_structure_of r l))))"
    by blast
qed

subsection \<open>C7: the validation error\<close>



subsection \<open>C8: the years are chained\<close>

text \<open>
  Claim C8. For a horizon \<open>N\<close> that is not negative and parameters whose dictionaries
  cover the levels, \<open>predict_multiple_years\<close> returns \<open>N\<close> records, numbered from 1 in
  order. The first record holds the result of the call for year 1, and each later record
  holds the result of the single call of \<open>predict_one_year\<close> that starts from
  \<open>final_campus\<close> and \<open>final_social\<close> of the record before it, carries that record's age-mass
  and is given no ages; its starting head counts are those finals. With \<open>N = 3\<close>, the
  third record is what one call on the second record returns.
\<close>

theorem multi_year_chaining:
  assumes "params_ok p" and "0 \<le> N"
  shows "\<exists>rs. predict_multiple_years p N = Inr rs \<and> int (length rs) = N \<and>
     (\<forall>i < length rs. year (rs ! i) = int i + 1) \<and>
     (rs \<noteq> [] \<longrightarrow> first_year p = Inr (record_result (rs ! 0))) \<and>
     (\<forall>i. Suc i < length rs \<longrightarrow>
        next_year p (rs ! i) = Inr (record_result (rs ! Suc i)) \<and>
        current_campus (rs ! Suc i) = final_campus (rs ! i) \<and>
        current_social (rs ! Suc i) = final_social (rs ! i))"
proof -
  from loop_runs [OF assms(1), of "nat N"] obtain st where
    st: "for_each (year_step p) (map int [0..<nat N])
           (current_campus_employees p, current_social_employees p, None, []) = Inr st"
    and inv: "loop_inv p (nat N) st" by blast
  obtain c s prev rs where t: "st = (c, s, prev, rs)" by (cases st) auto
  have range: "py_range N = map int [0..<nat N]"
    using py_range_nat [of "nat N"] assms(2) by simp
  have run: "predict_multiple_years p N = Inr rs"
    by (simp add: predict_multiple_years_def range st t)
  from inv have "length rs = nat N" "chained p rs"
    by (simp_all add: loop_inv_def t)
  then show ?thesis
    using run assms(2) unfolding chained_def by auto
qed

theorem multi_year_chaining_witness:
  "\<exists>rs. predict_multiple_years scenario_params 3 = Inr rs \<and> length rs = 3 \<and>
     year (rs ! 2) = 3 \<and>
     next_year scenario_params (rs ! 1) = Inr (record_result (rs ! 2)) \<and>
     current_campus (rs ! 2) = final_campus (rs ! 1) \<and>
     current_social (rs ! 2) = final_social (rs ! 1)"
proof -
  from multi_year_chaining [OF scenario_params_ok, of 3]
  obtain rs where rs: "predict_multiple_years scenario_params 3 = Inr rs" "int (length rs) = 3"
    and y: "\<forall>i < length rs. year (rs ! i) = int i + 1"
    and n: "\<forall>i. Suc i < length rs \<longrightarrow>
        next_year scenario_params (rs ! i) = Inr (record_result (rs ! Suc i)) \<and>
        current_campus (rs ! Suc i) = final_campus (rs ! i) \<and>
        current_social (rs ! Suc i) = final_social (rs ! i)"
    by auto
  have len: "length rs = 3" using rs(2) by simp
  have "year (rs ! 2) = 3" using y len by auto
  moreover have "next_year scenario_params (rs ! 1) = Inr (record_result (rs ! Suc 1)) \<and>
        current_campus (rs ! Suc 1) = final_campus (rs ! 1) \<and>
        current_social (rs ! Suc 1) = final_social (rs ! 1)"
    using n len by simp
  ultimately show ?thesis
    using rs(1) len by (auto simp: numeral_2_eq_2)
qed

subsection \<open>C9: the metrics of an all-zero table\<close>

lemma sum_list_all_zero:
  fixes f :: "'a \<Rightarrow> 'n::monoid_add"
  shows "(\<And>x. x \<in> set xs \<Longrightarrow> f x = 0) \<Longrightarrow> sum_list (map f xs) = 0"
  by (induction xs) simp_all

text \<open>
  Claim C9. On a table in which the campus and the social head count of every row are
  0, \<open>calculate_current_metrics\<close> raises nothing and returns a total of 0, an average
  level of 0.0, an average age of 0.0 and a campus ratio of 0.0.
\<close>

theorem metrics_of_zero_table:
  assumes "\<forall>r \<in> set df. campus_employee r = 0 \<and> social_employee r = 0"
  shows "calculate_current_metrics df =
           Inr \<lparr>current_total = 0, current_average_level = 0, current_average_age = 0,
                current_campus_ratio = 0\<rparr>"
proof -
  have "sum_list (map (\<lambda>r. campus_employee r + social_employee r) df) = 0"
    using assms by (intro sum_list_all_zero) simp
  then show ?thesis
    by (simp add: calculate_current_metrics_def)
qed

theorem metrics_of_zero_table_witness:
  "calculate_current_metrics empty_table =
     Inr \<lparr>current_total = 0, current_average_level = 0, current_average_age = 0,
          current_campus_ratio = 0\<rparr>"
proof -
  have "\<forall>r \<in> set empty_table. campus_employee r = 0 \<and> social_employee r = 0"
    by (simp add: empty_table_def empty_row_def)
  from metrics_of_zero_table [OF this] show ?thesis .
qed

subsection \<open>C10: the arguments are not written to\<close>

text \<open>
  The function on the store computes what \<open>predict_one_year\<close> computes: each step of the
  program is the step of the function on the dictionaries that the store holds.
\<close>

lemma bind_err_assoc:
  "bind_err (bind_err m f) g = bind_err m (\<lambda>x. bind_err (f x) g)"
  by (cases m) simp_all

lemma then_do_eval_in: "then_do (eval_in e) f h = bind_err (e h) (\<lambda>a. f a h)"
  by (cases "e h") (simp_all add: then_do_def eval_in_def)

lemma then_do_new_dict:
  "then_do (new_dict d) f h =
     f (next_ref h) (h\<lparr>int_dicts := (int_dicts h)(next_ref h := d), next_ref := Suc (next_ref h)\<rparr>)"
  by (simp add: then_do_def new_dict_def)

lemma then_do_set_item:
  "then_do (set_item r k v) f h =
     f () (h\<lparr>int_dicts := (int_dicts h)(r := (int_dicts h r)(k \<mapsto> v))\<rparr>)"
  by (simp add: then_do_def set_item_def)

lemma then_do_assoc: "then_do (then_do m f) g = then_do m (\<lambda>a. then_do (f a) g)"
  by (rule ext) (auto simp: then_do_def split: sum.splits)

lemma then_do_done_with: "then_do (done_with a) f h = f a h"
  by (simp add: then_do_def done_with_def)

lemma then_do_comprehend:
  "then_do (comprehend e) f h =
     bind_err (e h) (\<lambda>d.
       f (next_ref h)
         (h\<lparr>int_dicts := (int_dicts h)(next_ref h := d), next_ref := Suc (next_ref h)\<rparr>))"
  by (simp add: comprehend_def then_do_assoc then_do_eval_in then_do_new_dict)

lemma set_item_run:
  "set_item r k v h = Inr ((), h\<lparr>int_dicts := (int_dicts h)(r := (int_dicts h r)(k \<mapsto> v))\<rparr>)"
  by (simp add: set_item_def)

lemma upd_twice:
  "a \<noteq> b \<Longrightarrow> (f(a := x, b := y))(a := x', b := y') = f(a := x', b := y')"
  by (auto simp: fun_eq_iff)

lemma promotion_step_h_run:
  fixes h :: heap
  assumes "Ac \<noteq> As" "cce \<noteq> Ac" "cce \<noteq> As" "cse \<noteq> Ac" "cse \<noteq> As"
  shows "promotion_step_h cce cse cpr spr Ac As l h =
     bind_err (promotion_step (int_dicts h cce) (int_dicts h cse) (float_dicts h cpr)
                 (float_dicts h spr) (int_dicts h Ac, int_dicts h As) l)
       (\<lambda>A. Inr ((), h\<lparr>int_dicts := (int_dicts h)(Ac := fst A, As := snd A)\<rparr>))"
  unfolding promotion_step_h_def promotion_step_def
  using assms
  by (simp add: then_do_eval_in then_do_set_item set_item_run bind_err_assoc)

lemma promotion_loop_run:
  fixes h :: heap
  assumes d: "Ac \<noteq> As" "cce \<noteq> Ac" "cce \<noteq> As" "cse \<noteq> Ac" "cse \<noteq> As"
  shows "for_levels (promotion_step_h cce cse cpr spr Ac As) ls h =
     bind_err (for_each (promotion_step (int_dicts h cce) (int_dicts h cse) (float_dicts h cpr)
                 (float_dicts h spr)) ls (int_dicts h Ac, int_dicts h As))
       (\<lambda>A. Inr ((), h\<lparr>int_dicts := (int_dicts h)(Ac := fst A, As := snd A)\<rparr>))"
proof (induction ls arbitrary: h)
  case Nil
  have "(int_dicts h)(Ac := int_dicts h Ac, As := int_dicts h As) = int_dicts h"
    by (auto simp: fun_eq_iff)
  then have "h\<lparr>int_dicts := (int_dicts h)(Ac := int_dicts h Ac, As := int_dicts h As)\<rparr> = h"
    by simp
  then show ?case
    unfolding for_levels.simps for_each.simps bind_err_Inr fst_conv snd_conv done_with_def
    by simp
next
  case (Cons l ls)
  let ?P = "promotion_step (int_dicts h cce) (int_dicts h cse) (float_dicts h cpr)
              (float_dicts h spr) (int_dicts h Ac, int_dicts h As) l"
  show ?case
  proof (cases ?P)
    case (Inl e)
    then show ?thesis
      by (simp add: then_do_def promotion_step_h_run [OF d])
  next
    case (Inr A)
    define h1 where "h1 = h\<lparr>int_dicts := (int_dicts h)(Ac := fst A, As := snd A)\<rparr>"
    have step: "promotion_step_h cce cse cpr spr Ac As l h = Inr ((), h1)"
      by (simp add: promotion_step_h_run [OF d] Inr h1_def)
    have reads: "int_dicts h1 cce = int_dicts h cce" "int_dicts h1 cse = int_dicts h cse"
      "float_dicts h1 = float_dicts h" "int_dicts h1 Ac = fst A" "int_dicts h1 As = snd A"
      using d by (simp_all add: h1_def)
    have undo: "h1\<lparr>int_dicts := (int_dicts h1)(Ac := x, As := y)\<rparr>
        = h\<lparr>int_dicts := (int_dicts h)(Ac := x, As := y)\<rparr>" for x y
      using d(1) by (simp add: h1_def upd_twice)
    have "for_levels (promotion_step_h cce cse cpr spr Ac As) (l # ls) h
        = for_levels (promotion_step_h cce cse cpr spr Ac As) ls h1"
      by (simp add: then_do_def step)
    also have "\<dots> = bind_err (for_each (promotion_step (int_dicts h cce) (int_dicts h cse)
                 (float_dicts h cpr) (float_dicts h spr)) ls A)
       (\<lambda>A. Inr ((), h\<lparr>int_dicts := (int_dicts h)(Ac := fst A, As := snd A)\<rparr>))"
      unfolding Cons.IH [of h1] reads undo by simp
    finally show ?thesis
      unfolding for_each.simps Inr bind_err_Inr .
  qed
qed

lemma adjust_allocation_h_run:
  fixes h :: heap
  shows "adjust_allocation_h t r h =
     bind_err (adjust_allocation t (int_dicts h r))
       (\<lambda>d. Inr ((), h\<lparr>int_dicts := (int_dicts h)(r := d)\<rparr>))"
proof (cases "sum_values (int_dicts h r)")
  case (Inl e)
  then show ?thesis
    by (simp add: adjust_allocation_h_def adjust_allocation_def then_do_eval_in)
next
  case (Inr total)
  show ?thesis
  proof (cases "total = t")
    case True
    then show ?thesis
      by (simp add: adjust_allocation_h_def adjust_allocation_def then_do_eval_in Inr
          done_with_def)
  next
    case False
    then show ?thesis
      by (simp add: adjust_allocation_h_def adjust_allocation_def then_do_eval_in Inr
          set_item_run bind_err_assoc Let_def)
  qed
qed

lemma then_do_promotion_loop:
  fixes h :: heap
  assumes d: "Ac \<noteq> As" "cce \<noteq> Ac" "cce \<noteq> As" "cse \<noteq> Ac" "cse \<noteq> As"
  shows "then_do (for_levels (promotion_step_h cce cse cpr spr Ac As) ls) f h =
     bind_err (for_each (promotion_step (int_dicts h cce) (int_dicts h cse) (float_dicts h cpr)
                 (float_dicts h spr)) ls (int_dicts h Ac, int_dicts h As))
       (\<lambda>A. f () (h\<lparr>int_dicts := (int_dicts h)(Ac := fst A, As := snd A)\<rparr>))"
  unfolding then_do_def promotion_loop_run [OF d]
  by (cases "for_each (promotion_step (int_dicts h cce) (int_dicts h cse) (float_dicts h cpr)
                 (float_dicts h spr)) ls (int_dicts h Ac, int_dicts h As)") simp_all

lemma then_do_adjust_allocation_h:
  fixes h :: heap
  shows "then_do (adjust_allocation_h t r) f h =
     bind_err (adjust_allocation t (int_dicts h r))
       (\<lambda>d. f () (h\<lparr>int_dicts := (int_dicts h)(r := d)\<rparr>))"
  unfolding then_do_def adjust_allocation_h_run
  by (cases "adjust_allocation t (int_dicts h r)") simp_all

lemma outcome_bind_err: "outcome (bind_err m f) = bind_err m (\<lambda>a. outcome (f a))"
  by (cases m) (simp_all add: outcome_def)

lemma outcome_done_with: "outcome (done_with res h) = Inr (read_result h res)"
  by (simp add: outcome_def done_with_def)

lemma predict_one_year_h_refines:
  fixes h :: heap
  assumes "cce < next_ref h" "cse < next_ref h"
  shows "outcome (predict_one_year_h cce cse cca csa cla sla snha cnha cpr spr car sar hr cr tt
                    prev h)
       = predict_one_year (int_dicts h cce) (int_dicts h cse)
           (map_option (float_dicts h) cca) (map_option (float_dicts h) csa)
           (float_dicts h cla) (float_dicts h sla) (float_dicts h snha) cnha
           (float_dicts h cpr) (float_dicts h spr) (float_dicts h car) (float_dicts h sar)
           (float_dicts h hr) cr tt prev"
  unfolding predict_one_year_h_def predict_one_year_def promotion_pass_def allocate_social_def
    Let_def
  using assms
  by (simp add: then_do_new_dict then_do_promotion_loop then_do_comprehend then_do_eval_in
      then_do_adjust_allocation_h outcome_bind_err outcome_done_with bind_err_assoc
      read_result_def split_def)













end
